theory Spec2Isabelle
  imports Main
begin

section \<open>The error taxonomy (errors.ts)\<close>

text \<open>
  The classes of errors.ts. \<open>NexusVoidError\<close> is the base class; the five others extend
  it, so \<open>e instanceof NexusVoidError\<close> holds for every object of the taxonomy and
  \<open>e instanceof RateLimitError\<close> holds exactly for the objects built by that class.
\<close>

datatype error_class =
  NexusVoidError | AuthenticationError | RateLimitError | ValidationError
  | ServiceError | TimeoutError

text \<open>
  A response body as the client reads it: \<open>data.error\<close>, \<open>data.message\<close> (absent
  fields are \<open>None\<close>), and whatever else the body holds.
\<close>

record body =
  body_error :: "string option"
  body_message :: "string option"
  body_rest :: string

text \<open>An \<open>AxiosResponse\<close>: the HTTP status and the body (\<open>data\<close>).\<close>

record 'd axios_response =
  resp_status :: int
  resp_data :: 'd

type_synonym error_response = "body option axios_response"

text \<open>
  The \<open>response?: any\<close> field of an error: \<open>undefined\<close>, the body of a response (what
  \<open>handleError\<close> passes), or a whole response object (what the catch blocks of
  \<open>analyzePrompt\<close> and \<open>healthCheck\<close> pass).
\<close>

datatype attached = Undefined | Data body | Response error_response

record nv_error =
  cls :: error_class
  message :: string
  code :: "string option"
  status :: "int option"
  response :: attached

definition new_NexusVoidError ::
  "string \<Rightarrow> string option \<Rightarrow> int option \<Rightarrow> attached \<Rightarrow> nv_error" where
  "new_NexusVoidError m c s r =
     \<lparr>cls = NexusVoidError, message = m, code = c, status = s, response = r\<rparr>"

text \<open>A default parameter value \<open>message: string = '...'\<close> is used when the argument is undefined.\<close>

definition default_to :: "string \<Rightarrow> string option \<Rightarrow> string" where
  "default_to d m = (case m of None \<Rightarrow> d | Some s \<Rightarrow> s)"

definition new_AuthenticationError :: "string option \<Rightarrow> attached \<Rightarrow> nv_error" where
  "new_AuthenticationError m r =
     (new_NexusVoidError (default_to ''Authentication failed'' m) (Some ''AUTH_ERROR'') (Some 401) r)
       \<lparr>cls := AuthenticationError\<rparr>"

definition new_RateLimitError :: "string option \<Rightarrow> attached \<Rightarrow> nv_error" where
  "new_RateLimitError m r =
     (new_NexusVoidError (default_to ''Rate limit exceeded'' m) (Some ''RATE_LIMIT_ERROR'') (Some 429) r)
       \<lparr>cls := RateLimitError\<rparr>"

definition new_ValidationError :: "string option \<Rightarrow> attached \<Rightarrow> nv_error" where
  "new_ValidationError m r =
     (new_NexusVoidError (default_to ''Validation failed'' m) (Some ''VALIDATION_ERROR'') (Some 400) r)
       \<lparr>cls := ValidationError\<rparr>"

definition new_ServiceError :: "string option \<Rightarrow> attached \<Rightarrow> nv_error" where
  "new_ServiceError m r =
     (new_NexusVoidError (default_to ''Service error'' m) (Some ''SERVICE_ERROR'') (Some 500) r)
       \<lparr>cls := ServiceError\<rparr>"

definition new_TimeoutError :: "string option \<Rightarrow> attached \<Rightarrow> nv_error" where
  "new_TimeoutError m r =
     (new_NexusVoidError (default_to ''Request timeout'' m) (Some ''TIMEOUT_ERROR'') (Some 408) r)
       \<lparr>cls := TimeoutError\<rparr>"

section \<open>Raw transport failures and their classification (client.ts, handleError)\<close>

text \<open>
  What the HTTP library rejects with: \<open>error.response\<close> (present when the server
  answered), \<open>error.code\<close> and \<open>error.message\<close>.
\<close>

record axios_error =
  err_response :: "error_response option"
  err_code :: "string option"
  err_message :: "string option"

text \<open>
  \<open>a || b\<close> on a possibly undefined string and a string: \<open>a\<close> when it is truthy
  (defined and not the empty string), else \<open>b\<close>.
\<close>

definition or_str :: "string option \<Rightarrow> string \<Rightarrow> string" where
  "or_str a b = (case a of None \<Rightarrow> b | Some s \<Rightarrow> if s = [] then b else s)"

text \<open>\<open>data?.error\<close> and \<open>data?.message\<close>: undefined when \<open>data\<close> is.\<close>

definition data_error :: "body option \<Rightarrow> string option" where
  "data_error d = (case d of None \<Rightarrow> None | Some b \<Rightarrow> body_error b)"

definition data_message :: "body option \<Rightarrow> string option" where
  "data_message d = (case d of None \<Rightarrow> None | Some b \<Rightarrow> body_message b)"

definition attach_data :: "body option \<Rightarrow> attached" where
  "attach_data d = (case d of None \<Rightarrow> Undefined | Some b \<Rightarrow> Data b)"

definition attach_response :: "error_response option \<Rightarrow> attached" where
  "attach_response r = (case r of None \<Rightarrow> Undefined | Some x \<Rightarrow> Response x)"

definition handleError :: "axios_error \<Rightarrow> nv_error" where
  "handleError error =
     (case err_response error of
        Some r \<Rightarrow>
          (let status = resp_status r;
               data = resp_data r;
               message = or_str (data_error data) (or_str (data_message data)
                           (or_str (err_message error) ''Unknown error''))
           in if status = 401 then new_AuthenticationError (Some message) (attach_data data)
              else if status = 429 then new_RateLimitError (Some message) (attach_data data)
              else if status = 400 then new_ValidationError (Some message) (attach_data data)
              else if status = 408 then new_TimeoutError (Some message) (attach_data data)
              else if status = 500 \<or> status = 502 \<or> status = 503 \<or> status = 504
                then new_ServiceError (Some message) (attach_data data)
              else new_NexusVoidError message (Some ''HTTP_ERROR'') (Some status) (attach_data data))
      | None \<Rightarrow>
          if err_code error = Some ''ECONNABORTED''
            then new_TimeoutError (Some ''Request timeout'') (attach_response (err_response error))
          else if err_code error = Some ''ENOTFOUND'' \<or> err_code error = Some ''ECONNREFUSED''
            then new_ServiceError (Some ''Unable to connect to NexusVoid API'')
                   (attach_response (err_response error))
          else new_NexusVoidError (or_str (err_message error) ''Unknown error'')
                 (Some ''UNKNOWN_ERROR'') None (attach_response (err_response error)))"

section \<open>Configuration and options (types.ts)\<close>

text \<open>\<open>NexusVoidConfig\<close>, the constructor's argument: an absent optional field is \<open>None\<close>.\<close>

record NexusVoidConfig =
  cfg_apiKey :: string
  cfg_baseUrl :: "string option"
  cfg_timeout :: "int option"
  cfg_retries :: "int option"

text \<open>\<open>Required<NexusVoidConfig>\<close>, the type of \<open>this.config\<close>.\<close>

record config =
  apiKey :: string
  baseUrl :: string
  timeout :: int
  retries :: int

record AnalysisOptions =
  opt_timeout :: "int option"
  opt_retries :: "int option"

section \<open>The HTTP client instance and the outside world\<close>

text \<open>
  A value that a promise of the client rejects with: an object of the taxonomy, or a raw
  failure of the HTTP library (not an instance of \<open>NexusVoidError\<close>).
\<close>

datatype thrown = Typed nv_error | Raw axios_error

text \<open>
  The instance made by \<open>axios.create\<close>: its defaults and the rejection handler of the
  response interceptor, when one is installed.
\<close>

record axios_instance =
  baseURL :: string
  default_timeout :: int
  authorization :: string
  response_rejected :: "(axios_error \<Rightarrow> thrown) option"

record request =
  req_method :: string
  req_url :: string
  req_authorization :: string
  req_prompt :: "string option"
  req_timeout :: int

text \<open>
  The effects of the client on the world: the requests handed to the transport, in order,
  and the delays waited, in order.
\<close>

record world =
  calls :: "request list"
  sleeps :: "int list"

text \<open>
  The remote side: what the transport answers to a request, given how many requests it
  has received before. \<open>Inl\<close> is a failure, \<open>Inr\<close> a response.
\<close>

type_synonym 'a transport = "nat \<Rightarrow> request \<Rightarrow> axios_error + 'a axios_response"

type_synonym 'a action = "world \<Rightarrow> (thrown + 'a axios_response) \<times> world"

definition axios_request :: "'a transport \<Rightarrow> axios_instance \<Rightarrow> request \<Rightarrow> 'a action" where
  "axios_request tr inst rq w =
     (let w' = w\<lparr>calls := calls w @ [rq]\<rparr>
      in case tr (length (calls w)) rq of
           Inr resp \<Rightarrow> (Inr resp, w')
         | Inl err \<Rightarrow>
             (case response_rejected inst of
                None \<Rightarrow> (Inl (Raw err), w')
              | Some h \<Rightarrow> (Inl (h err), w')))"

definition axios_post ::
  "'a transport \<Rightarrow> axios_instance \<Rightarrow> string \<Rightarrow> string \<Rightarrow> int \<Rightarrow> 'a action" where
  "axios_post tr inst url prompt request_timeout =
     axios_request tr inst
       \<lparr>req_method = ''POST'', req_url = baseURL inst @ url,
        req_authorization = authorization inst, req_prompt = Some prompt,
        req_timeout = request_timeout\<rparr>"

definition axios_get :: "'a transport \<Rightarrow> axios_instance \<Rightarrow> string \<Rightarrow> 'a action" where
  "axios_get tr inst url =
     axios_request tr inst
       \<lparr>req_method = ''GET'', req_url = baseURL inst @ url,
        req_authorization = authorization inst, req_prompt = None,
        req_timeout = default_timeout inst\<rparr>"

section \<open>The client (client.ts)\<close>

record client =
  client_axios :: axios_instance
  config :: config

text \<open>The rejection handler that \<open>setupInterceptors\<close> installs on responses.\<close>

definition interceptor_rejected :: "axios_error \<Rightarrow> thrown" where
  "interceptor_rejected error = Typed (handleError error)"

definition new_NexusVoidClient :: "NexusVoidConfig \<Rightarrow> client" where
  "new_NexusVoidClient c =
     (let cfg = \<lparr>apiKey = cfg_apiKey c,
                 baseUrl = (case cfg_baseUrl c of None \<Rightarrow> ''https://api.nexusvoid.com'' | Some u \<Rightarrow> u),
                 timeout = (case cfg_timeout c of None \<Rightarrow> 30000 | Some t \<Rightarrow> t),
                 retries = (case cfg_retries c of None \<Rightarrow> 3 | Some r \<Rightarrow> r)\<rparr>
      in \<lparr>client_axios =
            \<lparr>baseURL = baseUrl cfg, default_timeout = timeout cfg,
             authorization = ''Bearer '' @ apiKey cfg,
             response_rejected = Some interceptor_rejected\<rparr>,
          config = cfg\<rparr>)"

definition instanceof :: "thrown \<Rightarrow> error_class \<Rightarrow> bool" where
  "instanceof error c =
     (case error of
        Raw _ \<Rightarrow> False
      | Typed e \<Rightarrow> c = NexusVoidError \<or> cls e = c)"

definition shouldRetry :: "thrown \<Rightarrow> bool" where
  "shouldRetry error =
     (if instanceof error RateLimitError then True
      else if instanceof error TimeoutError then True
      else if instanceof error ServiceError \<and>
              (case error of
                 Typed e \<Rightarrow> (case status e of None \<Rightarrow> False | Some s \<Rightarrow> s \<noteq> 0 \<and> s \<ge> 500)
               | Raw _ \<Rightarrow> False)
        then True
      else False)"

definition delay :: "int \<Rightarrow> world \<Rightarrow> world" where
  "delay ms w = w\<lparr>sleeps := sleeps w @ [ms]\<rparr>"

text \<open>
  \<open>retryRequest\<close> once its second parameter has a value; the recursive call always
  passes one.
\<close>

function retryRequest_from ::
  "client \<Rightarrow> 'a action \<Rightarrow> int \<Rightarrow> world \<Rightarrow> (thrown + 'a axios_response) \<times> world" where
  "retryRequest_from this requestFn n w =
     (case requestFn w of
        (Inr resp, w') \<Rightarrow> (Inr resp, w')
      | (Inl error, w') \<Rightarrow>
          if n > 0 \<and> shouldRetry error
            then retryRequest_from this requestFn (n - 1)
                   (delay (1000 * (retries (config this) - n + 1)) w')
          else (Inl error, w'))"
  by pat_completeness auto
termination
  by (relation "measure (\<lambda>(this, requestFn, n, w). nat n)") auto

text \<open>The default value \<open>retries: number = this.config.retries\<close> replaces an undefined argument.\<close>

definition retryRequest ::
  "client \<Rightarrow> 'a action \<Rightarrow> int option \<Rightarrow> world \<Rightarrow> (thrown + 'a axios_response) \<times> world" where
  "retryRequest this requestFn n w =
     retryRequest_from this requestFn (case n of None \<Rightarrow> retries (config this) | Some k \<Rightarrow> k) w"

text \<open>The values \<open>analyzePrompt\<close> can be called with at run time; only strings pass its check.\<close>

datatype js_value =
  JS_undefined | JS_null | JS_boolean bool | JS_number int | JS_string string | JS_object

fun typeof :: "js_value \<Rightarrow> string" where
  "typeof JS_undefined = ''undefined''"
| "typeof JS_null = ''object''"
| "typeof (JS_boolean b) = ''boolean''"
| "typeof (JS_number n) = ''number''"
| "typeof (JS_string s) = ''string''"
| "typeof JS_object = ''object''"

fun truthy :: "js_value \<Rightarrow> bool" where
  "truthy JS_undefined = False"
| "truthy JS_null = False"
| "truthy (JS_boolean b) = b"
| "truthy (JS_number n) = (n \<noteq> 0)"
| "truthy (JS_string s) = (s \<noteq> [])"
| "truthy JS_object = True"

text \<open>The characters of a value that is a string (nothing else reaches \<open>prompt.length\<close>).\<close>

fun chars :: "js_value \<Rightarrow> string" where
  "chars (JS_string s) = s"
| "chars _ = []"

text \<open>\<open>a || b\<close> on a possibly undefined number and a number.\<close>

definition or_num :: "int option \<Rightarrow> int \<Rightarrow> int" where
  "or_num a b = (case a of None \<Rightarrow> b | Some n \<Rightarrow> if n = 0 then b else n)"

definition analyzePrompt ::
  "client \<Rightarrow> 'a transport \<Rightarrow> js_value \<Rightarrow> AnalysisOptions \<Rightarrow> world \<Rightarrow> (nv_error + 'a) \<times> world" where
  "analyzePrompt this tr prompt options w =
     (if \<not> truthy prompt \<or> typeof prompt \<noteq> ''string''
        then (Inl (new_ValidationError (Some ''Prompt must be a non-empty string'') Undefined), w)
      else if length (chars prompt) > 10000
        then (Inl (new_ValidationError (Some ''Prompt must be less than 10,000 characters'') Undefined), w)
      else
        (let request_timeout = or_num (opt_timeout options) (timeout (config this))
         in case retryRequest this
                   (axios_post tr (client_axios this) ''/v1/prompt-analysis/analyze''
                      (chars prompt) request_timeout)
                   (opt_retries options) w of
              (Inr resp, w') \<Rightarrow> (Inr (resp_data resp), w')
            | (Inl error, w') \<Rightarrow>
                (case error of
                   Typed e \<Rightarrow> (Inl e, w')
                 | Raw r \<Rightarrow>
                     (Inl (new_ServiceError (Some ''Failed to analyze prompt'')
                             (attach_response (err_response r))), w'))))"

definition healthCheck :: "client \<Rightarrow> 'a transport \<Rightarrow> world \<Rightarrow> (nv_error + 'a) \<times> world" where
  "healthCheck this tr w =
     (case axios_get tr (client_axios this) ''/v1/prompt-analysis/health'' w of
        (Inr resp, w') \<Rightarrow> (Inr (resp_data resp), w')
      | (Inl error, w') \<Rightarrow>
          (case error of
             Typed e \<Rightarrow> (Inl e, w')
           | Raw r \<Rightarrow>
               (Inl (new_ServiceError (Some ''Failed to check service health'')
                       (attach_response (err_response r))), w')))"

definition setApiKey :: "string \<Rightarrow> client \<Rightarrow> client" where
  "setApiKey k this =
     this\<lparr>config := (config this)\<lparr>apiKey := k\<rparr>,
          client_axios := (client_axios this)\<lparr>authorization := ''Bearer '' @ k\<rparr>\<rparr>"

definition setBaseUrl :: "string \<Rightarrow> client \<Rightarrow> client" where
  "setBaseUrl u this =
     this\<lparr>config := (config this)\<lparr>baseUrl := u\<rparr>,
          client_axios := (client_axios this)\<lparr>baseURL := u\<rparr>\<rparr>"

section \<open>Objects and references: getConfig\<close>

text \<open>
  \<open>this.config\<close> holds a reference to an object, and \<open>getConfig\<close> returns a reference
  too. The store maps references to the objects they denote; \<open>next_ref\<close> is the first
  reference not yet allocated.
\<close>

record store =
  objects :: "nat \<Rightarrow> config"
  next_ref :: nat

record client_ref =
  ref_axios :: axios_instance
  ref_config :: nat

text \<open>The client as its methods see it: \<open>this.client\<close> and the object \<open>this.config\<close> refers to.\<close>

definition deref :: "store \<Rightarrow> client_ref \<Rightarrow> client" where
  "deref s this = \<lparr>client_axios = ref_axios this, config = objects s (ref_config this)\<rparr>"

text \<open>The constructor, allocating the configuration object.\<close>

definition construct :: "NexusVoidConfig \<Rightarrow> store \<Rightarrow> client_ref \<times> store" where
  "construct c s =
     (\<lparr>ref_axios = client_axios (new_NexusVoidClient c), ref_config = next_ref s\<rparr>,
      s\<lparr>objects := (objects s)(next_ref s := config (new_NexusVoidClient c)),
        next_ref := Suc (next_ref s)\<rparr>)"

text \<open>\<open>return { ...this.config }\<close>: a new object with the fields of \<open>this.config\<close>.\<close>

definition getConfig :: "client_ref \<Rightarrow> store \<Rightarrow> nat \<times> store" where
  "getConfig this s =
     (next_ref s,
      s\<lparr>objects := (objects s)(next_ref s := objects s (ref_config this)),
        next_ref := Suc (next_ref s)\<rparr>)"

text \<open>What a caller can do to an object it holds a reference to: assign to a field.\<close>

datatype mutation =
  Assign_apiKey string | Assign_baseUrl string | Assign_timeout int | Assign_retries int

fun assign :: "mutation \<Rightarrow> config \<Rightarrow> config" where
  "assign (Assign_apiKey v) c = c\<lparr>apiKey := v\<rparr>"
| "assign (Assign_baseUrl v) c = c\<lparr>baseUrl := v\<rparr>"
| "assign (Assign_timeout v) c = c\<lparr>timeout := v\<rparr>"
| "assign (Assign_retries v) c = c\<lparr>retries := v\<rparr>"

definition mutate :: "nat \<Rightarrow> mutation \<Rightarrow> store \<Rightarrow> store" where
  "mutate r m s = s\<lparr>objects := (objects s)(r := assign m (objects s r))\<rparr>"

fun mutate_all :: "nat \<Rightarrow> mutation list \<Rightarrow> store \<Rightarrow> store" where
  "mutate_all r [] s = s"
| "mutate_all r (m # ms) s = mutate_all r ms (mutate r m s)"

section \<open>Scenarios\<close>

text \<open>Concrete inputs on which the theorems below are instantiated.\<close>

definition http_failure :: "int \<Rightarrow> string option \<Rightarrow> axios_error" where
  "http_failure st err =
     \<lparr>err_response = Some \<lparr>resp_status = st,
        resp_data = Some \<lparr>body_error = err, body_message = None, body_rest = []\<rparr>\<rparr>,
      err_code = Some ''ERR_BAD_RESPONSE'',
      err_message = Some ''Request failed''\<rparr>"

definition always_failing :: "int \<Rightarrow> unit transport" where
  "always_failing st = (\<lambda>k rq. Inl (http_failure st None))"

definition timeout_failure :: axios_error where
  "timeout_failure =
     \<lparr>err_response = None, err_code = Some ''ECONNABORTED'',
      err_message = Some ''timeout of 30000ms exceeded''\<rparr>"

definition only_key :: NexusVoidConfig where
  "only_key = \<lparr>cfg_apiKey = ''k'', cfg_baseUrl = None, cfg_timeout = None, cfg_retries = None\<rparr>"

definition no_options :: AnalysisOptions where
  "no_options = \<lparr>opt_timeout = None, opt_retries = None\<rparr>"

definition probe :: request where
  "probe = \<lparr>req_method = ''POST'', req_url = ''u'', req_authorization = ''a'',
            req_prompt = Some ''x'', req_timeout = 30000\<rparr>"

definition quiet :: world where
  "quiet = \<lparr>calls = [], sleeps = []\<rparr>"

definition empty_store :: store where
  "empty_store =
     \<lparr>objects = (\<lambda>r. \<lparr>apiKey = [], baseUrl = [], timeout = 0, retries = 0\<rparr>), next_ref = 0\<rparr>"

text \<open>
  The message rule in the words of the specification, applied to every classified failure:
  the body's error field, else its message field, else the transport message, else a
  fixed default.
\<close>

definition spec_message :: "axios_error \<Rightarrow> string" where
  "spec_message error =
     (let data = (case err_response error of None \<Rightarrow> None | Some r \<Rightarrow> resp_data r)
      in or_str (data_error data) (or_str (data_message data)
           (or_str (err_message error) ''Unknown error'')))"

text \<open>
  The backoff rule in the words of the specification: the waits of a call whose effective
  budget is \<open>maxRetries\<close> and that uses all of it are 1000 ms, 2000 ms, and so on.
\<close>

definition spec_waits :: "nat \<Rightarrow> int list" where
  "spec_waits maxRetries = map (\<lambda>k. 1000 * (int k + 1)) [0..<maxRetries]"

section \<open>Basic facts\<close>

lemmas new_defs = new_NexusVoidError_def new_AuthenticationError_def new_RateLimitError_def
  new_ValidationError_def new_ServiceError_def new_TimeoutError_def default_to_def

declare retryRequest_from.simps [simp del]

lemma shouldRetry_Typed:
  "shouldRetry (Typed e) \<longleftrightarrow>
     cls e = RateLimitError \<or> cls e = TimeoutError \<or>
     (cls e = ServiceError \<and> (\<exists>s. status e = Some s \<and> 500 \<le> s))"
  by (auto simp: shouldRetry_def instanceof_def split: option.splits)

lemma shouldRetry_Raw: "\<not> shouldRetry (Raw x)"
  by (simp add: shouldRetry_def instanceof_def)

lemma retry_rejected:
  "requestFn w = (Inl error, w') \<Longrightarrow>
   retryRequest_from this requestFn n w =
     (if 0 < n \<and> shouldRetry error
        then retryRequest_from this requestFn (n - 1)
               (delay (1000 * (retries (config this) - n + 1)) w')
      else (Inl error, w'))"
  by (subst retryRequest_from.simps) simp

lemma retry_fulfilled:
  "requestFn w = (Inr resp, w') \<Longrightarrow> retryRequest_from this requestFn n w = (Inr resp, w')"
  by (subst retryRequest_from.simps) simp

lemma retry_no_budget:
  "n \<le> 0 \<Longrightarrow> retryRequest_from this requestFn n w = requestFn w"
  by (subst retryRequest_from.simps) (auto split: prod.splits sum.splits)

lemma calls_delay [simp]: "calls (delay ms w) = calls w"
  by (simp add: delay_def)

lemma sleeps_delay [simp]: "sleeps (delay ms w) = sleeps w @ [ms]"
  by (simp add: delay_def)

lemma axios_request_calls [simp]:
  "calls (snd (axios_request tr inst rq w)) = calls w @ [rq]"
  by (simp add: axios_request_def Let_def split: sum.splits option.splits)

lemma axios_request_sleeps [simp]:
  "sleeps (snd (axios_request tr inst rq w)) = sleeps w"
  by (simp add: axios_request_def Let_def split: sum.splits option.splits)

lemma axios_request_rejected:
  "tr (length (calls w)) rq = Inl err \<Longrightarrow> response_rejected inst = Some h \<Longrightarrow>
   axios_request tr inst rq w = (Inl (h err), w\<lparr>calls := calls w @ [rq]\<rparr>)"
  by (simp add: axios_request_def Let_def)

lemma axios_request_raw:
  "tr (length (calls w)) rq = Inl err \<Longrightarrow> response_rejected inst = None \<Longrightarrow>
   axios_request tr inst rq w = (Inl (Raw err), w\<lparr>calls := calls w @ [rq]\<rparr>)"
  by (simp add: axios_request_def Let_def)

lemma retry_calls:
  "\<exists>k. calls (snd (retryRequest_from this (axios_request tr inst rq) n w))
          = calls w @ replicate (Suc k) rq"
proof (induction "nat n" arbitrary: n w)
  case 0
  then have "retryRequest_from this (axios_request tr inst rq) n w = axios_request tr inst rq w"
    by (simp add: retry_no_budget)
  then have "calls (snd (retryRequest_from this (axios_request tr inst rq) n w))
               = calls w @ replicate (Suc 0) rq"
    by simp
  then show ?case by blast
next
  case (Suc m)
  obtain res w' where step: "axios_request tr inst rq w = (res, w')"
    by (cases "axios_request tr inst rq w")
  then have w': "calls w' = calls w @ [rq]"
    using axios_request_calls [of tr inst rq w] by simp
  show ?case
  proof (cases res)
    case (Inr resp)
    with step have "retryRequest_from this (axios_request tr inst rq) n w = (Inr resp, w')"
      by (simp add: retry_fulfilled)
    with w' have "calls (snd (retryRequest_from this (axios_request tr inst rq) n w))
               = calls w @ replicate (Suc 0) rq"
      by simp
    then show ?thesis by blast
  next
    case (Inl error)
    show ?thesis
    proof (cases "0 < n \<and> shouldRetry error")
      case False
      with step Inl have "retryRequest_from this (axios_request tr inst rq) n w = (Inl error, w')"
        using retry_rejected [where requestFn = "axios_request tr inst rq" and w = w
            and error = error and w' = w' and this = this and n = n]
        by auto
      with w' have "calls (snd (retryRequest_from this (axios_request tr inst rq) n w))
               = calls w @ replicate (Suc 0) rq"
        by simp
      then show ?thesis by blast
    next
      case True
      let ?w = "delay (1000 * (retries (config this) - n + 1)) w'"
      from True step Inl have eq: "retryRequest_from this (axios_request tr inst rq) n w
          = retryRequest_from this (axios_request tr inst rq) (n - 1) ?w"
        using retry_rejected [where requestFn = "axios_request tr inst rq" and w = w
            and error = error and w' = w' and this = this and n = n]
        by auto
      from Suc.hyps(2) have "m = nat (n - 1)" by simp
      from Suc.hyps(1) [OF this, of ?w] obtain k where
        "calls (snd (retryRequest_from this (axios_request tr inst rq) (n - 1) ?w))
           = calls ?w @ replicate (Suc k) rq" by blast
      with eq w' have "calls (snd (retryRequest_from this (axios_request tr inst rq) n w))
           = calls w @ replicate (Suc (Suc k)) rq"
        by simp
      then show ?thesis by blast
    qed
  qed
qed

lemma upt_shift: "map f [0..<Suc n] = f 0 # map (\<lambda>k. f (Suc k)) [0..<n]"
  by (simp add: upt_conv_Cons map_Suc_upt [symmetric] del: upt_Suc)

lemma retry_exhausted:
  fixes n :: nat
  assumes icpt: "response_rejected inst = Some interceptor_rejected"
      and fails: "\<And>k. \<exists>err. tr k rq = Inl err \<and> shouldRetry (Typed (handleError err))"
  shows "\<exists>err. tr (length (calls w) + n) rq = Inl err \<and>
           retryRequest_from this (axios_request tr inst rq) (int n) w =
             (Inl (Typed (handleError err)),
              w\<lparr>calls := calls w @ replicate (Suc n) rq,
                sleeps := sleeps w @
                  map (\<lambda>k. 1000 * (retries (config this) - int n + 1 + int k)) [0..<n]\<rparr>)"
proof (induction n arbitrary: w)
  case 0
  from fails obtain err where e: "tr (length (calls w)) rq = Inl err" by blast
  then have "retryRequest_from this (axios_request tr inst rq) (int 0) w =
     (Inl (Typed (handleError err)), w\<lparr>calls := calls w @ [rq]\<rparr>)"
    using icpt by (simp add: retry_no_budget axios_request_rejected interceptor_rejected_def)
  with e show ?case by auto
next
  case (Suc n)
  from fails obtain err where e: "tr (length (calls w)) rq = Inl err"
    and sr: "shouldRetry (Typed (handleError err))" by blast
  let ?w1 = "w\<lparr>calls := calls w @ [rq]\<rparr>"
  let ?w2 = "delay (1000 * (retries (config this) - int (Suc n) + 1)) ?w1"
  have step: "axios_request tr inst rq w = (Inl (Typed (handleError err)), ?w1)"
    using e icpt by (simp add: axios_request_rejected interceptor_rejected_def)
  have eq: "retryRequest_from this (axios_request tr inst rq) (int (Suc n)) w
       = retryRequest_from this (axios_request tr inst rq) (int n) ?w2"
    using retry_rejected [where requestFn = "axios_request tr inst rq" and w = w
        and this = this and n = "int (Suc n)", OF step] sr by simp
  from Suc.IH [of ?w2] obtain err' where
    e': "tr (length (calls ?w2) + n) rq = Inl err'" and
    r: "retryRequest_from this (axios_request tr inst rq) (int n) ?w2 =
          (Inl (Typed (handleError err')),
           ?w2\<lparr>calls := calls ?w2 @ replicate (Suc n) rq,
               sleeps := sleeps ?w2 @
                 map (\<lambda>k. 1000 * (retries (config this) - int n + 1 + int k)) [0..<n]\<rparr>)"
    by blast
  have c: "calls ?w2 @ replicate (Suc n) rq = calls w @ replicate (Suc (Suc n)) rq"
    by simp
  have s: "sleeps ?w2 @ map (\<lambda>k. 1000 * (retries (config this) - int n + 1 + int k)) [0..<n]
      = sleeps w @ map (\<lambda>k. 1000 * (retries (config this) - int (Suc n) + 1 + int k)) [0..<Suc n]"
    by (simp add: upt_shift delay_def del: upt_Suc)
  have w2: "?w2\<lparr>calls := calls ?w2 @ replicate (Suc n) rq,
               sleeps := sleeps ?w2 @
                 map (\<lambda>k. 1000 * (retries (config this) - int n + 1 + int k)) [0..<n]\<rparr>
     = w\<lparr>calls := calls w @ replicate (Suc (Suc n)) rq,
          sleeps := sleeps w @ map (\<lambda>k. 1000 * (retries (config this) - int (Suc n) + 1 + int k)) [0..<Suc n]\<rparr>"
    unfolding c s by (simp add: delay_def)
  from e' have "tr (length (calls w) + Suc n) rq = Inl err'" by simp
  with eq r w2 show ?case by auto
qed

lemma handleError_http:
  "err_response error = Some r \<Longrightarrow>
   handleError error =
     (let m = or_str (data_error (resp_data r)) (or_str (data_message (resp_data r))
                (or_str (err_message error) ''Unknown error''));
          d = attach_data (resp_data r)
      in if resp_status r = 401
           then \<lparr>cls = AuthenticationError, message = m, code = Some ''AUTH_ERROR'', status = Some 401, response = d\<rparr>
         else if resp_status r = 429
           then \<lparr>cls = RateLimitError, message = m, code = Some ''RATE_LIMIT_ERROR'', status = Some 429, response = d\<rparr>
         else if resp_status r = 400
           then \<lparr>cls = ValidationError, message = m, code = Some ''VALIDATION_ERROR'', status = Some 400, response = d\<rparr>
         else if resp_status r = 408
           then \<lparr>cls = TimeoutError, message = m, code = Some ''TIMEOUT_ERROR'', status = Some 408, response = d\<rparr>
         else if resp_status r \<in> {500, 502, 503, 504}
           then \<lparr>cls = ServiceError, message = m, code = Some ''SERVICE_ERROR'', status = Some 500, response = d\<rparr>
         else \<lparr>cls = NexusVoidError, message = m, code = Some ''HTTP_ERROR'', status = Some (resp_status r), response = d\<rparr>)"
  by (simp add: handleError_def new_defs Let_def)

lemma handleError_transport:
  "err_response error = None \<Longrightarrow>
   handleError error =
     (if err_code error = Some ''ECONNABORTED''
        then \<lparr>cls = TimeoutError, message = ''Request timeout'', code = Some ''TIMEOUT_ERROR'', status = Some 408, response = Undefined\<rparr>
      else if err_code error \<in> {Some ''ENOTFOUND'', Some ''ECONNREFUSED''}
        then \<lparr>cls = ServiceError, message = ''Unable to connect to NexusVoid API'', code = Some ''SERVICE_ERROR'', status = Some 500, response = Undefined\<rparr>
      else \<lparr>cls = NexusVoidError, message = or_str (err_message error) ''Unknown error'', code = Some ''UNKNOWN_ERROR'', status = None, response = Undefined\<rparr>)"
  by (simp add: handleError_def new_defs attach_response_def)

section \<open>Claims\<close>

text \<open>
  C9. Every Service failure that classification produces has status 500 and code
  SERVICE_ERROR, and the only thing attached to it is the body of the response (nothing
  when there was no response). The status the server answered with is not kept: a 502,
  503 or 504 response yields the very error a 500 response with the same body yields.
  Connectivity failures (host not found, connection refused) are Service failures too.
\<close>

theorem service_failure_status_fixed:
  "(cls (handleError error) = ServiceError \<longrightarrow>
      status (handleError error) = Some 500 \<and>
      code (handleError error) = Some ''SERVICE_ERROR'' \<and>
      response (handleError error) =
        (case err_response error of None \<Rightarrow> Undefined | Some r \<Rightarrow> attach_data (resp_data r)))
   \<and> (\<forall>s \<in> {500, 502, 503, 504}.
         cls (handleError (error\<lparr>err_response := Some \<lparr>resp_status = s, resp_data = d\<rparr>\<rparr>))
           = ServiceError \<and>
         handleError (error\<lparr>err_response := Some \<lparr>resp_status = s, resp_data = d\<rparr>\<rparr>)
           = handleError (error\<lparr>err_response := Some \<lparr>resp_status = 500, resp_data = d\<rparr>\<rparr>))
   \<and> (err_response error = None \<and> err_code error \<in> {Some ''ENOTFOUND'', Some ''ECONNREFUSED''} \<longrightarrow>
         cls (handleError error) = ServiceError)"
proof (intro conjI impI ballI)
  assume sv: "cls (handleError error) = ServiceError"
  show "status (handleError error) = Some 500"
    using sv by (cases "err_response error")
      (auto simp: handleError_transport handleError_http Let_def split: if_splits)
  show "code (handleError error) = Some ''SERVICE_ERROR''"
    using sv by (cases "err_response error")
      (auto simp: handleError_transport handleError_http Let_def split: if_splits)
  show "response (handleError error) =
        (case err_response error of None \<Rightarrow> Undefined | Some r \<Rightarrow> attach_data (resp_data r))"
    using sv by (cases "err_response error")
      (auto simp: handleError_transport handleError_http Let_def split: if_splits)
next
  fix s :: int assume "s \<in> {500, 502, 503, 504}"
  then show "cls (handleError (error\<lparr>err_response := Some \<lparr>resp_status = s, resp_data = d\<rparr>\<rparr>))
           = ServiceError"
    by (auto simp: handleError_http Let_def)
next
  fix s :: int assume "s \<in> {500, 502, 503, 504}"
  then show "handleError (error\<lparr>err_response := Some \<lparr>resp_status = s, resp_data = d\<rparr>\<rparr>)
           = handleError (error\<lparr>err_response := Some \<lparr>resp_status = 500, resp_data = d\<rparr>\<rparr>)"
    by (auto simp: handleError_http Let_def)
next
  assume "err_response error = None \<and> err_code error \<in> {Some ''ENOTFOUND'', Some ''ECONNREFUSED''}"
  then show "cls (handleError error) = ServiceError"
    by (auto simp: handleError_transport)
qed

theorem service_failure_status_fixed_witness:
  "cls (handleError (http_failure 503 None)) = ServiceError \<and>
   status (handleError (http_failure 503 None)) = Some 500 \<and>
   code (handleError (http_failure 503 None)) = Some ''SERVICE_ERROR'' \<and>
   response (handleError (http_failure 503 None)) =
     Data \<lparr>body_error = None, body_message = None, body_rest = []\<rparr> \<and>
   handleError (http_failure 503 None) = handleError (http_failure 500 None) \<and>
   cls (handleError \<lparr>err_response = None, err_code = Some ''ECONNREFUSED'', err_message = None\<rparr>)
     = ServiceError \<and>
   status (handleError \<lparr>err_response = None, err_code = Some ''ECONNREFUSED'', err_message = None\<rparr>)
     = Some 500"
proof -
  have c: "cls (handleError (http_failure 503 None)) = ServiceError"
    by (simp add: handleError_http http_failure_def)
  have m: "(503::int) \<in> {500, 502, 503, 504}" by simp
  have r: "err_response \<lparr>err_response = None, err_code = Some ''ECONNREFUSED'', err_message = None\<rparr> = None \<and>
     err_code \<lparr>err_response = None, err_code = Some ''ECONNREFUSED'', err_message = None\<rparr>
       \<in> {Some ''ENOTFOUND'', Some ''ECONNREFUSED''}" by simp
  note a = service_failure_status_fixed [of "http_failure 503 None"
      "Some \<lparr>body_error = None, body_message = None, body_rest = []\<rparr>"]
  note b = service_failure_status_fixed
     [of "\<lparr>err_response = None, err_code = Some ''ECONNREFUSED'', err_message = None\<rparr>" None]
  from a have a1: "status (handleError (http_failure 503 None)) = Some 500 \<and>
      code (handleError (http_failure 503 None)) = Some ''SERVICE_ERROR'' \<and>
      response (handleError (http_failure 503 None)) =
        (case err_response (http_failure 503 None) of None \<Rightarrow> Undefined | Some r \<Rightarrow> attach_data (resp_data r))"
    using c by blast
  from a m have a2: "handleError ((http_failure 503 None)\<lparr>err_response := Some \<lparr>resp_status = 503, resp_data = Some \<lparr>body_error = None, body_message = None, body_rest = []\<rparr>\<rparr>\<rparr>)
           = handleError ((http_failure 503 None)\<lparr>err_response := Some \<lparr>resp_status = 500, resp_data = Some \<lparr>body_error = None, body_message = None, body_rest = []\<rparr>\<rparr>\<rparr>)"
    by blast
  from b r have b1: "cls (handleError \<lparr>err_response = None, err_code = Some ''ECONNREFUSED'', err_message = None\<rparr>) = ServiceError"
    by blast
  with b have b2: "status (handleError \<lparr>err_response = None, err_code = Some ''ECONNREFUSED'', err_message = None\<rparr>) = Some 500"
    by blast
  from a1 a2 b1 b2 c show ?thesis
    by (simp add: http_failure_def attach_data_def)
qed

text \<open>
  C3, as amended. Classification is a function of the raw failure alone. A failure that
  carries a response is mapped by its status: 401 to Authentication, 429 to Rate-limit,
  400 to Validation, 408 to Timeout, 500, 502, 503 and 504 to Service, any other status
  to a generic failure with code HTTP_ERROR and that status; its message is the first
  non-empty of the body's error field, the body's message field and the transport
  message, else "Unknown error", and the body is attached. A failure without a response
  is mapped by its code: ECONNABORTED to a Timeout failure with the fixed message
  "Request timeout", ENOTFOUND and ECONNREFUSED to a Service failure with the fixed
  message "Unable to connect to NexusVoid API", anything else to a generic failure with
  code UNKNOWN_ERROR, no status, and the transport message, else "Unknown error".
\<close>

theorem classification_table:
  "(\<forall>r. err_response error = Some r \<longrightarrow>
      (let m = or_str (data_error (resp_data r)) (or_str (data_message (resp_data r))
                 (or_str (err_message error) ''Unknown error''));
           d = attach_data (resp_data r)
       in (resp_status r = 401 \<longrightarrow> handleError error =
             \<lparr>cls = AuthenticationError, message = m, code = Some ''AUTH_ERROR'',
              status = Some 401, response = d\<rparr>) \<and>
          (resp_status r = 429 \<longrightarrow> handleError error =
             \<lparr>cls = RateLimitError, message = m, code = Some ''RATE_LIMIT_ERROR'',
              status = Some 429, response = d\<rparr>) \<and>
          (resp_status r = 400 \<longrightarrow> handleError error =
             \<lparr>cls = ValidationError, message = m, code = Some ''VALIDATION_ERROR'',
              status = Some 400, response = d\<rparr>) \<and>
          (resp_status r = 408 \<longrightarrow> handleError error =
             \<lparr>cls = TimeoutError, message = m, code = Some ''TIMEOUT_ERROR'',
              status = Some 408, response = d\<rparr>) \<and>
          (resp_status r \<in> {500, 502, 503, 504} \<longrightarrow> handleError error =
             \<lparr>cls = ServiceError, message = m, code = Some ''SERVICE_ERROR'',
              status = Some 500, response = d\<rparr>) \<and>
          (resp_status r \<notin> {401, 429, 400, 408, 500, 502, 503, 504} \<longrightarrow> handleError error =
             \<lparr>cls = NexusVoidError, message = m, code = Some ''HTTP_ERROR'',
              status = Some (resp_status r), response = d\<rparr>)))
   \<and> (err_response error = None \<longrightarrow>
        (err_code error = Some ''ECONNABORTED'' \<longrightarrow> handleError error =
           \<lparr>cls = TimeoutError, message = ''Request timeout'', code = Some ''TIMEOUT_ERROR'',
            status = Some 408, response = Undefined\<rparr>) \<and>
        (err_code error \<in> {Some ''ENOTFOUND'', Some ''ECONNREFUSED''} \<longrightarrow> handleError error =
           \<lparr>cls = ServiceError, message = ''Unable to connect to NexusVoid API'',
            code = Some ''SERVICE_ERROR'', status = Some 500, response = Undefined\<rparr>) \<and>
        (err_code error \<notin> {Some ''ECONNABORTED'', Some ''ENOTFOUND'', Some ''ECONNREFUSED''} \<longrightarrow>
           handleError error =
           \<lparr>cls = NexusVoidError, message = or_str (err_message error) ''Unknown error'',
            code = Some ''UNKNOWN_ERROR'', status = None, response = Undefined\<rparr>))"
proof (intro conjI allI impI)
  fix r assume "err_response error = Some r"
  from handleError_http [OF this]
  show "let m = or_str (data_error (resp_data r)) (or_str (data_message (resp_data r))
                 (or_str (err_message error) ''Unknown error''));
           d = attach_data (resp_data r)
       in (resp_status r = 401 \<longrightarrow> handleError error =
             \<lparr>cls = AuthenticationError, message = m, code = Some ''AUTH_ERROR'',
              status = Some 401, response = d\<rparr>) \<and>
          (resp_status r = 429 \<longrightarrow> handleError error =
             \<lparr>cls = RateLimitError, message = m, code = Some ''RATE_LIMIT_ERROR'',
              status = Some 429, response = d\<rparr>) \<and>
          (resp_status r = 400 \<longrightarrow> handleError error =
             \<lparr>cls = ValidationError, message = m, code = Some ''VALIDATION_ERROR'',
              status = Some 400, response = d\<rparr>) \<and>
          (resp_status r = 408 \<longrightarrow> handleError error =
             \<lparr>cls = TimeoutError, message = m, code = Some ''TIMEOUT_ERROR'',
              status = Some 408, response = d\<rparr>) \<and>
          (resp_status r \<in> {500, 502, 503, 504} \<longrightarrow> handleError error =
             \<lparr>cls = ServiceError, message = m, code = Some ''SERVICE_ERROR'',
              status = Some 500, response = d\<rparr>) \<and>
          (resp_status r \<notin> {401, 429, 400, 408, 500, 502, 503, 504} \<longrightarrow> handleError error =
             \<lparr>cls = NexusVoidError, message = m, code = Some ''HTTP_ERROR'',
              status = Some (resp_status r), response = d\<rparr>)"
    by (auto simp: Let_def)
next
  assume "err_response error = None" "err_code error = Some ''ECONNABORTED''"
  then show "handleError error =
           \<lparr>cls = TimeoutError, message = ''Request timeout'', code = Some ''TIMEOUT_ERROR'',
            status = Some 408, response = Undefined\<rparr>"
    by (simp add: handleError_transport)
next
  assume "err_response error = None" "err_code error \<in> {Some ''ENOTFOUND'', Some ''ECONNREFUSED''}"
  then show "handleError error =
           \<lparr>cls = ServiceError, message = ''Unable to connect to NexusVoid API'',
            code = Some ''SERVICE_ERROR'', status = Some 500, response = Undefined\<rparr>"
    by (auto simp: handleError_transport)
next
  assume "err_response error = None"
    "err_code error \<notin> {Some ''ECONNABORTED'', Some ''ENOTFOUND'', Some ''ECONNREFUSED''}"
  then show "handleError error =
           \<lparr>cls = NexusVoidError, message = or_str (err_message error) ''Unknown error'',
            code = Some ''UNKNOWN_ERROR'', status = None, response = Undefined\<rparr>"
    by (auto simp: handleError_transport)
qed

text \<open>C3, instances: a 401 response with an error field, a 418 response, a transport timeout.\<close>

theorem classification_table_witness:
  "handleError (http_failure 401 (Some ''Invalid API key'')) =
     \<lparr>cls = AuthenticationError, message = ''Invalid API key'', code = Some ''AUTH_ERROR'',
      status = Some 401,
      response = Data \<lparr>body_error = Some ''Invalid API key'', body_message = None, body_rest = []\<rparr>\<rparr> \<and>
   handleError (http_failure 418 None) =
     \<lparr>cls = NexusVoidError, message = ''Request failed'', code = Some ''HTTP_ERROR'',
      status = Some 418,
      response = Data \<lparr>body_error = None, body_message = None, body_rest = []\<rparr>\<rparr> \<and>
   handleError timeout_failure =
     \<lparr>cls = TimeoutError, message = ''Request timeout'', code = Some ''TIMEOUT_ERROR'',
      status = Some 408, response = Undefined\<rparr>"
proof -
  have r1: "err_response (http_failure 401 (Some ''Invalid API key'')) =
      Some \<lparr>resp_status = 401, resp_data =
        Some \<lparr>body_error = Some ''Invalid API key'', body_message = None, body_rest = []\<rparr>\<rparr>"
    by (simp add: http_failure_def)
  have r2: "err_response (http_failure 418 None) =
      Some \<lparr>resp_status = 418, resp_data =
        Some \<lparr>body_error = None, body_message = None, body_rest = []\<rparr>\<rparr>"
    by (simp add: http_failure_def)
  have r3: "err_response timeout_failure = None" "err_code timeout_failure = Some ''ECONNABORTED''"
    by (simp_all add: timeout_failure_def)
  have a: "handleError (http_failure 401 (Some ''Invalid API key'')) =
     \<lparr>cls = AuthenticationError, message = ''Invalid API key'', code = Some ''AUTH_ERROR'',
      status = Some 401,
      response = Data \<lparr>body_error = Some ''Invalid API key'', body_message = None, body_rest = []\<rparr>\<rparr>"
    using classification_table [of "http_failure 401 (Some ''Invalid API key'')"] r1
    by (simp add: Let_def or_str_def data_error_def attach_data_def)
  have b: "handleError (http_failure 418 None) =
     \<lparr>cls = NexusVoidError, message = ''Request failed'', code = Some ''HTTP_ERROR'',
      status = Some 418,
      response = Data \<lparr>body_error = None, body_message = None, body_rest = []\<rparr>\<rparr>"
    using classification_table [of "http_failure 418 None"] r2
    by (simp add: Let_def or_str_def data_error_def data_message_def attach_data_def
        http_failure_def)
  have c: "handleError timeout_failure =
     \<lparr>cls = TimeoutError, message = ''Request timeout'', code = Some ''TIMEOUT_ERROR'',
      status = Some 408, response = Undefined\<rparr>"
    using classification_table [of timeout_failure] r3 by simp
  from a b c show ?thesis by simp
qed

text \<open>
  C3 as stated fails on a transport timeout: the transport message is present, and the
  classified error carries the fixed message "Request timeout" instead.
\<close>

theorem message_rule_counterexample:
  "message (handleError
      \<lparr>err_response = None, err_code = Some ''ECONNABORTED'',
       err_message = Some ''timeout of 30000ms exceeded''\<rparr>)
   \<noteq> spec_message
      \<lparr>err_response = None, err_code = Some ''ECONNABORTED'',
       err_message = Some ''timeout of 30000ms exceeded''\<rparr>"
  by (simp add: handleError_transport spec_message_def or_str_def data_error_def data_message_def)

text \<open>
  C2. When an attempt fails, the failure is classified, and the policy makes a further
  attempt if and only if the remaining budget is positive and the classified error is a
  Rate-limit failure, a Timeout failure, or a Service failure whose status is at least
  500. Otherwise the classified error is the result at once: one request, no wait. When
  it retries, it waits and runs again with the budget decreased by one.
\<close>

theorem retry_decision:
  assumes "response_rejected inst = Some interceptor_rejected"
      and "tr (length (calls w)) rq = Inl err"
  shows "(Suc (length (calls w))
            < length (calls (snd (retryRequest_from this (axios_request tr inst rq) n w)))
          \<longleftrightarrow> 0 < n \<and>
              (cls (handleError err) = RateLimitError \<or> cls (handleError err) = TimeoutError \<or>
               (cls (handleError err) = ServiceError \<and>
                (\<exists>s. status (handleError err) = Some s \<and> 500 \<le> s))))
       \<and> (\<not> (0 < n \<and>
              (cls (handleError err) = RateLimitError \<or> cls (handleError err) = TimeoutError \<or>
               (cls (handleError err) = ServiceError \<and>
                (\<exists>s. status (handleError err) = Some s \<and> 500 \<le> s))))
            \<longrightarrow> retryRequest_from this (axios_request tr inst rq) n w
                  = (Inl (Typed (handleError err)), w\<lparr>calls := calls w @ [rq]\<rparr>))
       \<and> (0 < n \<and>
              (cls (handleError err) = RateLimitError \<or> cls (handleError err) = TimeoutError \<or>
               (cls (handleError err) = ServiceError \<and>
                (\<exists>s. status (handleError err) = Some s \<and> 500 \<le> s)))
            \<longrightarrow> retryRequest_from this (axios_request tr inst rq) n w
                  = retryRequest_from this (axios_request tr inst rq) (n - 1)
                      (delay (1000 * (retries (config this) - n + 1))
                         (w\<lparr>calls := calls w @ [rq]\<rparr>)))"
proof -
  let ?e = "handleError err"
  let ?w1 = "w\<lparr>calls := calls w @ [rq]\<rparr>"
  let ?w2 = "delay (1000 * (retries (config this) - n + 1)) ?w1"
  let ?go = "0 < n \<and> (cls ?e = RateLimitError \<or> cls ?e = TimeoutError \<or>
               (cls ?e = ServiceError \<and> (\<exists>s. status ?e = Some s \<and> 500 \<le> s)))"
  have step: "axios_request tr inst rq w = (Inl (Typed ?e), ?w1)"
    using assms by (simp add: axios_request_rejected interceptor_rejected_def)
  note unfold = retry_rejected [where requestFn = "axios_request tr inst rq" and w = w
      and this = this and n = n, OF step]
  have stop: "retryRequest_from this (axios_request tr inst rq) n w = (Inl (Typed ?e), ?w1)"
    if "\<not> ?go"
    using that unfold by (auto simp: shouldRetry_Typed)
  have go: "retryRequest_from this (axios_request tr inst rq) n w
      = retryRequest_from this (axios_request tr inst rq) (n - 1) ?w2" if "?go"
    using that unfold by (auto simp: shouldRetry_Typed)
  have more: "Suc (length (calls w))
       < length (calls (snd (retryRequest_from this (axios_request tr inst rq) n w)))" if "?go"
  proof -
    obtain k where "calls (snd (retryRequest_from this (axios_request tr inst rq) (n - 1) ?w2))
        = calls ?w2 @ replicate (Suc k) rq"
      using retry_calls [of this tr inst rq "n - 1" ?w2] by blast
    with go [OF that] show ?thesis by simp
  qed
  have once: "\<not> Suc (length (calls w))
       < length (calls (snd (retryRequest_from this (axios_request tr inst rq) n w)))" if "\<not> ?go"
    using stop [OF that] by simp
  from stop go more once show ?thesis by blast
qed

text \<open>
  C2, instances: with one retry left, a 503 response is followed by a further attempt
  and a 401 response is not.
\<close>

theorem retry_decision_witness:
  "1 < length (calls (snd (retryRequest_from (new_NexusVoidClient only_key)
         (axios_request (always_failing 503) (client_axios (new_NexusVoidClient only_key)) probe)
         1 quiet)))
   \<and> retryRequest_from (new_NexusVoidClient only_key)
         (axios_request (always_failing 401) (client_axios (new_NexusVoidClient only_key)) probe)
         1 quiet
       = (Inl (Typed (handleError (http_failure 401 None))), quiet\<lparr>calls := [probe]\<rparr>)"
proof -
  let ?c = "new_NexusVoidClient only_key"
  have i: "response_rejected (client_axios ?c) = Some interceptor_rejected"
    by (simp add: new_NexusVoidClient_def Let_def)
  have t1: "always_failing 503 (length (calls quiet)) probe = Inl (http_failure 503 None)"
    by (simp add: always_failing_def)
  have t2: "always_failing 401 (length (calls quiet)) probe = Inl (http_failure 401 None)"
    by (simp add: always_failing_def)
  have c1: "cls (handleError (http_failure 503 None)) = ServiceError"
    "status (handleError (http_failure 503 None)) = Some 500"
    by (simp_all add: handleError_http http_failure_def)
  have c2: "cls (handleError (http_failure 401 None)) = AuthenticationError"
    by (simp add: handleError_http http_failure_def)
  have go: "0 < (1::int) \<and>
      (cls (handleError (http_failure 503 None)) = RateLimitError \<or>
       cls (handleError (http_failure 503 None)) = TimeoutError \<or>
       (cls (handleError (http_failure 503 None)) = ServiceError \<and>
        (\<exists>s. status (handleError (http_failure 503 None)) = Some s \<and> 500 \<le> s)))"
    using c1 by simp
  have stop: "\<not> (0 < (1::int) \<and>
      (cls (handleError (http_failure 401 None)) = RateLimitError \<or>
       cls (handleError (http_failure 401 None)) = TimeoutError \<or>
       (cls (handleError (http_failure 401 None)) = ServiceError \<and>
        (\<exists>s. status (handleError (http_failure 401 None)) = Some s \<and> 500 \<le> s))))"
    using c2 by simp
  from go retry_decision [where inst = "client_axios ?c" and tr = "always_failing 503"
      and w = quiet and rq = probe and err = "http_failure 503 None" and this = ?c and n = 1,
      OF i t1]
  have a: "Suc (length (calls quiet)) < length (calls (snd (retryRequest_from ?c
         (axios_request (always_failing 503) (client_axios ?c) probe) 1 quiet)))"
    by blast
  from stop retry_decision [where inst = "client_axios ?c" and tr = "always_failing 401"
      and w = quiet and rq = probe and err = "http_failure 401 None" and this = ?c and n = 1,
      OF i t2]
  have b: "retryRequest_from ?c (axios_request (always_failing 401) (client_axios ?c) probe) 1 quiet
       = (Inl (Typed (handleError (http_failure 401 None))), quiet\<lparr>calls := calls quiet @ [probe]\<rparr>)"
    by blast
  from a b show ?thesis by (simp add: quiet_def)
qed

text \<open>What \<open>analyzePrompt\<close> does once its input has passed the two checks.\<close>

lemma typeof_string: "typeof p = ''string'' \<longleftrightarrow> (\<exists>s. p = JS_string s)"
  by (cases p) auto

lemma valid_prompt:
  "p = JS_string s \<Longrightarrow> 1 \<le> length s \<Longrightarrow> length s \<le> 10000 \<Longrightarrow>
   analyzePrompt this tr p options w =
     (case retryRequest_from this
             (axios_request tr (client_axios this)
                \<lparr>req_method = ''POST'',
                 req_url = baseURL (client_axios this) @ ''/v1/prompt-analysis/analyze'',
                 req_authorization = authorization (client_axios this),
                 req_prompt = Some s,
                 req_timeout = or_num (opt_timeout options) (timeout (config this))\<rparr>)
             (case opt_retries options of None \<Rightarrow> retries (config this) | Some k \<Rightarrow> k) w of
        (Inr resp, w') \<Rightarrow> (Inr (resp_data resp), w')
      | (Inl (Typed e), w') \<Rightarrow> (Inl e, w')
      | (Inl (Raw r), w') \<Rightarrow>
          (Inl (new_ServiceError (Some ''Failed to analyze prompt'')
                  (attach_response (err_response r))), w'))"
  by (auto simp: analyzePrompt_def retryRequest_def axios_post_def Let_def
      split: prod.splits sum.splits thrown.splits)

text \<open>
  C4. A call to analyze whose effective retry budget is \<open>maxRetries\<close> (the override if
  given, else the client's) and whose every attempt is answered 429 returns: it fails
  with a Rate-limit failure, after exactly \<open>maxRetries + 1\<close> requests.
\<close>

theorem rate_limit_exhausts_budget:
  fixes maxRetries :: nat
  assumes "response_rejected (client_axios this) = Some interceptor_rejected"
    and "prompt = JS_string s" and "1 \<le> length s" and "length s \<le> 10000"
    and "(case opt_retries options of None \<Rightarrow> retries (config this) | Some k \<Rightarrow> k)
           = int maxRetries"
    and "\<forall>k rq. \<exists>err r. tr k rq = Inl err \<and> err_response err = Some r \<and> resp_status r = 429"
  shows "\<exists>e w'. analyzePrompt this tr prompt options w = (Inl e, w') \<and>
           cls e = RateLimitError \<and> code e = Some ''RATE_LIMIT_ERROR'' \<and> status e = Some 429 \<and>
           length (calls w') = length (calls w) + maxRetries + 1"
proof -
  let ?rq = "\<lparr>req_method = ''POST'',
                 req_url = baseURL (client_axios this) @ ''/v1/prompt-analysis/analyze'',
                 req_authorization = authorization (client_axios this),
                 req_prompt = Some s,
                 req_timeout = or_num (opt_timeout options) (timeout (config this))\<rparr>"
  have cls429: "cls (handleError err) = RateLimitError \<and> code (handleError err) = Some ''RATE_LIMIT_ERROR''
      \<and> status (handleError err) = Some 429"
    if "err_response err = Some r" "resp_status r = 429" for err r
    using that by (simp add: handleError_http Let_def)
  have fails: "\<exists>err. tr k ?rq = Inl err \<and> shouldRetry (Typed (handleError err))" for k
  proof -
    from assms(6) obtain err r where "tr k ?rq = Inl err" "err_response err = Some r" "resp_status r = 429"
      by blast
    then show ?thesis using cls429 by (auto simp: shouldRetry_Typed)
  qed
  from retry_exhausted [where inst = "client_axios this" and tr = tr and rq = ?rq
      and w = w and n = maxRetries and this = this, OF assms(1) fails]
  obtain err where e: "tr (length (calls w) + maxRetries) ?rq = Inl err"
    and r: "retryRequest_from this (axios_request tr (client_axios this) ?rq) (int maxRetries) w =
             (Inl (Typed (handleError err)),
              w\<lparr>calls := calls w @ replicate (Suc maxRetries) ?rq,
                sleeps := sleeps w @
                  map (\<lambda>k. 1000 * (retries (config this) - int maxRetries + 1 + int k)) [0..<maxRetries]\<rparr>)"
    by blast
  from assms(6) e obtain r' where "err_response err = Some r'" "resp_status r' = 429"
    by (metis sum.inject(1))
  then have c: "cls (handleError err) = RateLimitError \<and> code (handleError err) = Some ''RATE_LIMIT_ERROR''
      \<and> status (handleError err) = Some 429"
    by (rule cls429)
  have "analyzePrompt this tr prompt options w = (Inl (handleError err),
              w\<lparr>calls := calls w @ replicate (Suc maxRetries) ?rq,
                sleeps := sleeps w @
                  map (\<lambda>k. 1000 * (retries (config this) - int maxRetries + 1 + int k)) [0..<maxRetries]\<rparr>)"
    using valid_prompt [OF assms(2,3,4), of this tr options w] assms(5) r by simp
  with c show ?thesis by simp
qed

text \<open>C4, instance: the default budget of 3 gives 4 requests.\<close>

theorem rate_limit_exhausts_budget_witness:
  "\<exists>e w'. analyzePrompt (new_NexusVoidClient only_key) (always_failing 429) (JS_string ''x'')
             no_options quiet = (Inl e, w') \<and>
           cls e = RateLimitError \<and> code e = Some ''RATE_LIMIT_ERROR'' \<and> status e = Some 429 \<and>
           length (calls w') = 4"
proof -
  have i: "response_rejected (client_axios (new_NexusVoidClient only_key)) = Some interceptor_rejected"
    by (simp add: new_NexusVoidClient_def Let_def)
  have l: "1 \<le> length ''x''" "length ''x'' \<le> 10000" by simp_all
  have b: "(case opt_retries no_options of None \<Rightarrow> retries (config (new_NexusVoidClient only_key))
            | Some k \<Rightarrow> k) = int 3"
    by (simp add: no_options_def new_NexusVoidClient_def only_key_def Let_def)
  have t: "\<forall>k rq. \<exists>err r. always_failing 429 k rq = Inl err \<and> err_response err = Some r
            \<and> resp_status r = 429"
    by (simp add: always_failing_def http_failure_def)
  from rate_limit_exhausts_budget [where this = "new_NexusVoidClient only_key"
      and prompt = "JS_string ''x''" and s = "''x''" and options = no_options
      and maxRetries = 3 and tr = "always_failing 429" and w = quiet, OF i refl l b t]
  show ?thesis by (simp add: quiet_def)
qed

text \<open>
  C1 at a call that overrides the budget: a client with the default budget 3, called
  with \<open>retries: 1\<close> against a remote that always answers 429, waits 3000 ms before its
  only re-attempt, where the formula of the claim gives 1000 ms; called with
  \<open>retries: 5\<close> it asks for waits of -1000, 0, 1000, 2000 and 3000 ms. The wait is
  computed from the client's budget, not from the budget of the call.
\<close>

theorem backoff_under_override:
  "sleeps (snd (analyzePrompt (new_NexusVoidClient only_key) (always_failing 429)
                  (JS_string ''x'') \<lparr>opt_timeout = None, opt_retries = Some 1\<rparr> quiet)) = [3000]
   \<and> spec_waits 1 = [1000]
   \<and> sleeps (snd (analyzePrompt (new_NexusVoidClient only_key) (always_failing 429)
                  (JS_string ''x'') \<lparr>opt_timeout = None, opt_retries = Some 5\<rparr> quiet))
       = [- 1000, 0, 1000, 2000, 3000]
   \<and> spec_waits 5 = [1000, 2000, 3000, 4000, 5000]"
proof -
  note defs = analyzePrompt_def retryRequest_def retryRequest_from.simps axios_post_def
      axios_request_def always_failing_def http_failure_def new_NexusVoidClient_def only_key_def
      quiet_def interceptor_rejected_def handleError_def shouldRetry_def instanceof_def
      new_defs delay_def or_num_def Let_def
  have a: "sleeps (snd (analyzePrompt (new_NexusVoidClient only_key) (always_failing 429)
                  (JS_string ''x'') \<lparr>opt_timeout = None, opt_retries = Some 1\<rparr> quiet)) = [3000]"
    by (simp add: defs)
  have b: "sleeps (snd (analyzePrompt (new_NexusVoidClient only_key) (always_failing 429)
                  (JS_string ''x'') \<lparr>opt_timeout = None, opt_retries = Some 5\<rparr> quiet))
       = [- 1000, 0, 1000, 2000, 3000]"
    by (simp add: defs)
  have c: "spec_waits 1 = [1000]"
    by (simp add: spec_waits_def)
  have d: "spec_waits 5 = [1000, 2000, 3000, 4000, 5000]"
    by (simp add: spec_waits_def upt_conv_Cons)
  from a b c d show ?thesis by simp
qed

text \<open>C1, at the same calls: the waits of the code are not the waits of the claim's formula.\<close>

theorem backoff_under_override_witness:
  "sleeps (snd (analyzePrompt (new_NexusVoidClient only_key) (always_failing 429)
                  (JS_string ''x'') \<lparr>opt_timeout = None, opt_retries = Some 1\<rparr> quiet))
     \<noteq> spec_waits 1
   \<and> sleeps (snd (analyzePrompt (new_NexusVoidClient only_key) (always_failing 429)
                  (JS_string ''x'') \<lparr>opt_timeout = None, opt_retries = Some 5\<rparr> quiet))
     \<noteq> spec_waits 5"
  using backoff_under_override by simp

text \<open>A prompt that passes the checks is sent at least once, always as the same request.\<close>

lemma analyze_calls:
  assumes "prompt = JS_string s" and "1 \<le> length s" and "length s \<le> 10000"
  shows "\<exists>k. calls (snd (analyzePrompt this tr prompt options w)) =
           calls w @ replicate (Suc k)
             \<lparr>req_method = ''POST'',
              req_url = baseURL (client_axios this) @ ''/v1/prompt-analysis/analyze'',
              req_authorization = authorization (client_axios this),
              req_prompt = Some s,
              req_timeout = or_num (opt_timeout options) (timeout (config this))\<rparr>"
proof -
  let ?rq = "\<lparr>req_method = ''POST'',
              req_url = baseURL (client_axios this) @ ''/v1/prompt-analysis/analyze'',
              req_authorization = authorization (client_axios this),
              req_prompt = Some s,
              req_timeout = or_num (opt_timeout options) (timeout (config this))\<rparr>"
  let ?n = "case opt_retries options of None \<Rightarrow> retries (config this) | Some k \<Rightarrow> k"
  let ?r = "retryRequest_from this (axios_request tr (client_axios this) ?rq) ?n w"
  have vp: "analyzePrompt this tr prompt options w =
     (case ?r of
        (Inr resp, w') \<Rightarrow> (Inr (resp_data resp), w')
      | (Inl (Typed e), w') \<Rightarrow> (Inl e, w')
      | (Inl (Raw r), w') \<Rightarrow>
          (Inl (new_ServiceError (Some ''Failed to analyze prompt'')
                  (attach_response (err_response r))), w'))"
    using valid_prompt [OF assms, of this tr options w] by simp
  have "snd (analyzePrompt this tr prompt options w) = snd ?r"
    unfolding vp by (simp split: prod.splits sum.splits thrown.splits)
  moreover obtain k where "calls (snd ?r) = calls w @ replicate (Suc k) ?rq"
    using retry_calls [of this tr "client_axios this" ?rq ?n w] by blast
  ultimately show ?thesis
    by auto
qed

text \<open>
  C5. A prompt that is not a string, is the empty string, or is longer than 10,000
  characters makes analyze fail with a Validation failure and leaves the world as it was:
  no request reaches the transport. A string of 1 to 10,000 characters passes the check,
  and at least one POST request carrying it reaches the transport. (The length is
  \<open>prompt.length\<close>, the number of units of the string.)
\<close>

theorem input_precondition:
  "(((\<forall>s. prompt \<noteq> JS_string s) \<or> prompt = JS_string [] \<or> 10000 < length (chars prompt)) \<longrightarrow>
      (\<exists>e. analyzePrompt this tr prompt options w = (Inl e, w) \<and>
           cls e = ValidationError \<and> code e = Some ''VALIDATION_ERROR'' \<and> status e = Some 400))
   \<and> (\<forall>s. prompt = JS_string s \<and> 1 \<le> length s \<and> length s \<le> 10000 \<longrightarrow>
        (\<exists>k. calls (snd (analyzePrompt this tr prompt options w)) =
           calls w @ replicate (Suc k)
             \<lparr>req_method = ''POST'',
              req_url = baseURL (client_axios this) @ ''/v1/prompt-analysis/analyze'',
              req_authorization = authorization (client_axios this),
              req_prompt = Some s,
              req_timeout = or_num (opt_timeout options) (timeout (config this))\<rparr>))"
proof (intro conjI impI allI)
  assume bad: "(\<forall>s. prompt \<noteq> JS_string s) \<or> prompt = JS_string [] \<or> 10000 < length (chars prompt)"
  show "\<exists>e. analyzePrompt this tr prompt options w = (Inl e, w) \<and>
           cls e = ValidationError \<and> code e = Some ''VALIDATION_ERROR'' \<and> status e = Some 400"
  proof (cases "\<not> truthy prompt \<or> typeof prompt \<noteq> ''string''")
    case True
    then have "analyzePrompt this tr prompt options w =
        (Inl (new_ValidationError (Some ''Prompt must be a non-empty string'') Undefined), w)"
      by (simp add: analyzePrompt_def)
    then show ?thesis by (simp add: new_defs)
  next
    case False
    then obtain s where "prompt = JS_string s" "s \<noteq> []"
      by (cases prompt) auto
    with bad have "10000 < length (chars prompt)" by auto
    with False have "analyzePrompt this tr prompt options w =
        (Inl (new_ValidationError (Some ''Prompt must be less than 10,000 characters'') Undefined), w)"
      by (simp add: analyzePrompt_def)
    then show ?thesis by (simp add: new_defs)
  qed
next
  fix s assume ok: "prompt = JS_string s \<and> 1 \<le> length s \<and> length s \<le> 10000"
  then show "\<exists>k. calls (snd (analyzePrompt this tr prompt options w)) =
           calls w @ replicate (Suc k)
             \<lparr>req_method = ''POST'',
              req_url = baseURL (client_axios this) @ ''/v1/prompt-analysis/analyze'',
              req_authorization = authorization (client_axios this),
              req_prompt = Some s,
              req_timeout = or_num (opt_timeout options) (timeout (config this))\<rparr>"
    using analyze_calls [of prompt s this tr options w] by blast
qed

text \<open>
  C5, instances: null, the empty string and a string of 10,001 characters are refused
  without a request; a string of 10,000 characters is sent.
\<close>

theorem input_precondition_witness:
  "(\<exists>e. analyzePrompt (new_NexusVoidClient only_key) (always_failing 429) JS_null no_options quiet
          = (Inl e, quiet) \<and>
        cls e = ValidationError \<and> code e = Some ''VALIDATION_ERROR'' \<and> status e = Some 400)
   \<and> (\<exists>e. analyzePrompt (new_NexusVoidClient only_key) (always_failing 429) (JS_string [])
             no_options quiet = (Inl e, quiet) \<and>
        cls e = ValidationError \<and> code e = Some ''VALIDATION_ERROR'' \<and> status e = Some 400)
   \<and> (\<exists>e. analyzePrompt (new_NexusVoidClient only_key) (always_failing 429)
             (JS_string (replicate 10001 CHR ''a'')) no_options quiet = (Inl e, quiet) \<and>
        cls e = ValidationError \<and> code e = Some ''VALIDATION_ERROR'' \<and> status e = Some 400)
   \<and> (\<exists>k. calls (snd (analyzePrompt (new_NexusVoidClient only_key) (always_failing 429)
                 (JS_string (replicate 10000 CHR ''a'')) no_options quiet)) =
           replicate (Suc k)
             \<lparr>req_method = ''POST'',
              req_url = ''https://api.nexusvoid.com/v1/prompt-analysis/analyze'',
              req_authorization = ''Bearer k'',
              req_prompt = Some (replicate 10000 CHR ''a''),
              req_timeout = 30000\<rparr>)"
proof -
  let ?c = "new_NexusVoidClient only_key"
  let ?tr = "always_failing 429"
  have a: "(\<forall>s. JS_null \<noteq> JS_string s) \<or> JS_null = JS_string [] \<or> 10000 < length (chars JS_null)"
    by simp
  have b: "(\<forall>s. JS_string [] \<noteq> JS_string s) \<or> JS_string [] = JS_string []
            \<or> 10000 < length (chars (JS_string []))"
    by simp
  have c: "(\<forall>s. JS_string (replicate 10001 CHR ''a'') \<noteq> JS_string s)
            \<or> JS_string (replicate 10001 CHR ''a'') = JS_string []
            \<or> 10000 < length (chars (JS_string (replicate 10001 CHR ''a'')))"
    by simp
  have d: "JS_string (replicate 10000 CHR ''a'') = JS_string (replicate 10000 CHR ''a'')
      \<and> 1 \<le> length (replicate 10000 CHR ''a'') \<and> length (replicate 10000 CHR ''a'') \<le> 10000"
    by simp
  from a input_precondition [of JS_null ?c ?tr no_options quiet]
  have 1: "\<exists>e. analyzePrompt ?c ?tr JS_null no_options quiet = (Inl e, quiet) \<and>
        cls e = ValidationError \<and> code e = Some ''VALIDATION_ERROR'' \<and> status e = Some 400"
    by blast
  from b input_precondition [of "JS_string []" ?c ?tr no_options quiet]
  have 2: "\<exists>e. analyzePrompt ?c ?tr (JS_string []) no_options quiet = (Inl e, quiet) \<and>
        cls e = ValidationError \<and> code e = Some ''VALIDATION_ERROR'' \<and> status e = Some 400"
    by blast
  from c input_precondition [of "JS_string (replicate 10001 CHR ''a'')" ?c ?tr no_options quiet]
  have 3: "\<exists>e. analyzePrompt ?c ?tr (JS_string (replicate 10001 CHR ''a'')) no_options quiet
          = (Inl e, quiet) \<and>
        cls e = ValidationError \<and> code e = Some ''VALIDATION_ERROR'' \<and> status e = Some 400"
    by blast
  from d input_precondition [of "JS_string (replicate 10000 CHR ''a'')" ?c ?tr no_options quiet]
  have "\<exists>k. calls (snd (analyzePrompt ?c ?tr (JS_string (replicate 10000 CHR ''a'')) no_options quiet)) =
           calls quiet @ replicate (Suc k)
             \<lparr>req_method = ''POST'',
              req_url = baseURL (client_axios ?c) @ ''/v1/prompt-analysis/analyze'',
              req_authorization = authorization (client_axios ?c),
              req_prompt = Some (replicate 10000 CHR ''a''),
              req_timeout = or_num (opt_timeout no_options) (timeout (config ?c))\<rparr>"
    by blast
  then have 4: "\<exists>k. calls (snd (analyzePrompt ?c ?tr (JS_string (replicate 10000 CHR ''a'')) no_options quiet)) =
           replicate (Suc k)
             \<lparr>req_method = ''POST'',
              req_url = ''https://api.nexusvoid.com/v1/prompt-analysis/analyze'',
              req_authorization = ''Bearer k'',
              req_prompt = Some (replicate 10000 CHR ''a''),
              req_timeout = 30000\<rparr>"
    by (simp add: new_NexusVoidClient_def only_key_def no_options_def quiet_def or_num_def Let_def)
  from 1 2 3 4 show ?thesis by blast
qed

text \<open>The response interceptor is installed by the constructor and kept by the setters.\<close>

lemma interceptor_new [simp]:
  "response_rejected (client_axios (new_NexusVoidClient c)) = Some interceptor_rejected"
  by (simp add: new_NexusVoidClient_def Let_def)

lemma interceptor_setApiKey [simp]:
  "response_rejected (client_axios (setApiKey k this)) = response_rejected (client_axios this)"
  by (simp add: setApiKey_def)

lemma interceptor_setBaseUrl [simp]:
  "response_rejected (client_axios (setBaseUrl u this)) = response_rejected (client_axios this)"
  by (simp add: setBaseUrl_def)

text \<open>
  C6. When the remote answers 401, analyze (on a prompt that passes the check) and
  healthCheck both fail with an Authentication failure, and the world afterwards holds
  exactly one more request and no wait: the transport was invoked once, with no retry.
\<close>

theorem unauthorized_fails_once:
  assumes "response_rejected (client_axios this) = Some interceptor_rejected"
    and "\<forall>k rq. \<exists>err r. tr k rq = Inl err \<and> err_response err = Some r \<and> resp_status r = 401"
    and "prompt = JS_string s" and "1 \<le> length s" and "length s \<le> 10000"
  shows "(\<exists>e rq. analyzePrompt this tr prompt options w = (Inl e, w\<lparr>calls := calls w @ [rq]\<rparr>) \<and>
            cls e = AuthenticationError \<and> code e = Some ''AUTH_ERROR'' \<and> status e = Some 401)
       \<and> (\<exists>e rq. healthCheck this tr w = (Inl e, w\<lparr>calls := calls w @ [rq]\<rparr>) \<and>
            cls e = AuthenticationError \<and> code e = Some ''AUTH_ERROR'' \<and> status e = Some 401)"
proof
  let ?rq = "\<lparr>req_method = ''POST'',
              req_url = baseURL (client_axios this) @ ''/v1/prompt-analysis/analyze'',
              req_authorization = authorization (client_axios this),
              req_prompt = Some s,
              req_timeout = or_num (opt_timeout options) (timeout (config this))\<rparr>"
  let ?n = "case opt_retries options of None \<Rightarrow> retries (config this) | Some k \<Rightarrow> k"
  from assms(2) obtain err r where e: "tr (length (calls w)) ?rq = Inl err"
    and r: "err_response err = Some r" "resp_status r = 401"
    by blast
  from r have c: "cls (handleError err) = AuthenticationError \<and>
      code (handleError err) = Some ''AUTH_ERROR'' \<and> status (handleError err) = Some 401"
    by (simp add: handleError_http Let_def)
  have step: "axios_request tr (client_axios this) ?rq w
      = (Inl (Typed (handleError err)), w\<lparr>calls := calls w @ [?rq]\<rparr>)"
    using e assms(1) by (simp add: axios_request_rejected interceptor_rejected_def)
  have "\<not> shouldRetry (Typed (handleError err))"
    using c by (simp add: shouldRetry_Typed)
  with retry_rejected [where requestFn = "axios_request tr (client_axios this) ?rq" and w = w
      and this = this and n = ?n, OF step]
  have "retryRequest_from this (axios_request tr (client_axios this) ?rq) ?n w
      = (Inl (Typed (handleError err)), w\<lparr>calls := calls w @ [?rq]\<rparr>)"
    by simp
  with valid_prompt [OF assms(3,4,5), of this tr options w]
  have "analyzePrompt this tr prompt options w = (Inl (handleError err), w\<lparr>calls := calls w @ [?rq]\<rparr>)"
    by simp
  with c show "\<exists>e rq. analyzePrompt this tr prompt options w = (Inl e, w\<lparr>calls := calls w @ [rq]\<rparr>) \<and>
            cls e = AuthenticationError \<and> code e = Some ''AUTH_ERROR'' \<and> status e = Some 401"
    by blast
next
  let ?rq = "\<lparr>req_method = ''GET'',
              req_url = baseURL (client_axios this) @ ''/v1/prompt-analysis/health'',
              req_authorization = authorization (client_axios this),
              req_prompt = None,
              req_timeout = default_timeout (client_axios this)\<rparr>"
  from assms(2) obtain err r where e: "tr (length (calls w)) ?rq = Inl err"
    and r: "err_response err = Some r" "resp_status r = 401"
    by blast
  from r have c: "cls (handleError err) = AuthenticationError \<and>
      code (handleError err) = Some ''AUTH_ERROR'' \<and> status (handleError err) = Some 401"
    by (simp add: handleError_http Let_def)
  have step: "axios_request tr (client_axios this) ?rq w
      = (Inl (Typed (handleError err)), w\<lparr>calls := calls w @ [?rq]\<rparr>)"
    using e assms(1) by (simp add: axios_request_rejected interceptor_rejected_def)
  then have "healthCheck this tr w = (Inl (handleError err), w\<lparr>calls := calls w @ [?rq]\<rparr>)"
    by (simp add: healthCheck_def axios_get_def)
  with c show "\<exists>e rq. healthCheck this tr w = (Inl e, w\<lparr>calls := calls w @ [rq]\<rparr>) \<and>
            cls e = AuthenticationError \<and> code e = Some ''AUTH_ERROR'' \<and> status e = Some 401"
    by blast
qed

text \<open>C6, instance: a client built from a key alone, against a remote that always answers 401.\<close>

theorem unauthorized_fails_once_witness:
  "(\<exists>e rq. analyzePrompt (new_NexusVoidClient only_key) (always_failing 401) (JS_string ''x'')
               no_options quiet = (Inl e, \<lparr>calls = [rq], sleeps = []\<rparr>) \<and>
            cls e = AuthenticationError \<and> code e = Some ''AUTH_ERROR'' \<and> status e = Some 401)
   \<and> (\<exists>e rq. healthCheck (new_NexusVoidClient only_key) (always_failing 401) quiet
               = (Inl e, \<lparr>calls = [rq], sleeps = []\<rparr>) \<and>
            cls e = AuthenticationError \<and> code e = Some ''AUTH_ERROR'' \<and> status e = Some 401)"
proof -
  have i: "response_rejected (client_axios (new_NexusVoidClient only_key)) = Some interceptor_rejected"
    by simp
  have t: "\<forall>k rq. \<exists>err r. always_failing 401 k rq = Inl err \<and> err_response err = Some r
            \<and> resp_status r = 401"
    by (simp add: always_failing_def http_failure_def)
  have l: "1 \<le> length ''x''" "length ''x'' \<le> 10000" by simp_all
  from unauthorized_fails_once [where this = "new_NexusVoidClient only_key"
      and tr = "always_failing 401" and prompt = "JS_string ''x''" and s = "''x''"
      and options = no_options and w = quiet, OF i t refl l]
  show ?thesis by (simp add: quiet_def)
qed

text \<open>
  C7. Whatever the retry policy ends with inside analyze: an error of the taxonomy is
  the error analyze fails with, unchanged; a failure that is not of the taxonomy is
  replaced by a Service failure with the message "Failed to analyze prompt" that
  carries the response of the original failure.
\<close>

theorem errors_surfaced:
  assumes "prompt = JS_string s" and "1 \<le> length s" and "length s \<le> 10000"
  shows "(\<forall>e w'. retryRequest this
             (axios_post tr (client_axios this) ''/v1/prompt-analysis/analyze'' s
                (or_num (opt_timeout options) (timeout (config this))))
             (opt_retries options) w = (Inl (Typed e), w')
           \<longrightarrow> analyzePrompt this tr prompt options w = (Inl e, w'))
       \<and> (\<forall>x w'. retryRequest this
             (axios_post tr (client_axios this) ''/v1/prompt-analysis/analyze'' s
                (or_num (opt_timeout options) (timeout (config this))))
             (opt_retries options) w = (Inl (Raw x), w')
           \<longrightarrow> analyzePrompt this tr prompt options w =
                 (Inl \<lparr>cls = ServiceError, message = ''Failed to analyze prompt'',
                       code = Some ''SERVICE_ERROR'', status = Some 500,
                       response = (case err_response x of None \<Rightarrow> Undefined
                                   | Some r \<Rightarrow> Response r)\<rparr>, w'))"
  using assms
  by (auto simp: analyzePrompt_def Let_def new_defs attach_response_def)

text \<open>
  C7, instances: a client with its interceptor, whose 401 failure arrives classified and
  is passed on as it is; and an instance without the response interceptor, as a mocked
  HTTP library gives, whose raw 401 failure is wrapped.
\<close>

theorem errors_surfaced_witness:
  "analyzePrompt (new_NexusVoidClient only_key) (always_failing 401) (JS_string ''x'')
      no_options quiet
    = (Inl (handleError (http_failure 401 None)),
       \<lparr>calls = [\<lparr>req_method = ''POST'',
                  req_url = ''https://api.nexusvoid.com/v1/prompt-analysis/analyze'',
                  req_authorization = ''Bearer k'', req_prompt = Some ''x'',
                  req_timeout = 30000\<rparr>], sleeps = []\<rparr>)
   \<and> analyzePrompt
       ((new_NexusVoidClient only_key)
          \<lparr>client_axios := (client_axios (new_NexusVoidClient only_key))
             \<lparr>response_rejected := None\<rparr>\<rparr>)
       (always_failing 401) (JS_string ''x'') no_options quiet
    = (Inl \<lparr>cls = ServiceError, message = ''Failed to analyze prompt'',
            code = Some ''SERVICE_ERROR'', status = Some 500,
            response = Response \<lparr>resp_status = 401,
              resp_data = Some \<lparr>body_error = None, body_message = None, body_rest = []\<rparr>\<rparr>\<rparr>,
       \<lparr>calls = [\<lparr>req_method = ''POST'',
                  req_url = ''https://api.nexusvoid.com/v1/prompt-analysis/analyze'',
                  req_authorization = ''Bearer k'', req_prompt = Some ''x'',
                  req_timeout = 30000\<rparr>], sleeps = []\<rparr>)"
proof -
  let ?c = "new_NexusVoidClient only_key"
  let ?m = "?c\<lparr>client_axios := (client_axios ?c)\<lparr>response_rejected := None\<rparr>\<rparr>"
  let ?rq = "\<lparr>req_method = ''POST'',
                  req_url = ''https://api.nexusvoid.com/v1/prompt-analysis/analyze'',
                  req_authorization = ''Bearer k'', req_prompt = Some ''x'',
                  req_timeout = 30000\<rparr>"
  have l: "1 \<le> length ''x''" "length ''x'' \<le> 10000" by simp_all
  have a: "retryRequest ?c
             (axios_post (always_failing 401) (client_axios ?c) ''/v1/prompt-analysis/analyze'' ''x''
                (or_num (opt_timeout no_options) (timeout (config ?c))))
             (opt_retries no_options) quiet
           = (Inl (Typed (handleError (http_failure 401 None))), \<lparr>calls = [?rq], sleeps = []\<rparr>)"
    by (simp add: retryRequest_def retryRequest_from.simps axios_post_def
      axios_request_def always_failing_def http_failure_def new_NexusVoidClient_def only_key_def
      quiet_def no_options_def interceptor_rejected_def handleError_def shouldRetry_def
      instanceof_def new_defs or_num_def Let_def)
  have b: "retryRequest ?m
             (axios_post (always_failing 401) (client_axios ?m) ''/v1/prompt-analysis/analyze'' ''x''
                (or_num (opt_timeout no_options) (timeout (config ?m))))
             (opt_retries no_options) quiet
           = (Inl (Raw (http_failure 401 None)), \<lparr>calls = [?rq], sleeps = []\<rparr>)"
    by (simp add: retryRequest_def retryRequest_from.simps axios_post_def
      axios_request_def always_failing_def new_NexusVoidClient_def only_key_def
      quiet_def no_options_def shouldRetry_def
      instanceof_def or_num_def Let_def)
  from errors_surfaced [where prompt = "JS_string ''x''" and s = "''x''" and this = ?c
      and tr = "always_failing 401" and options = no_options and w = quiet, OF refl l] a
  have 1: "analyzePrompt ?c (always_failing 401) (JS_string ''x'') no_options quiet
    = (Inl (handleError (http_failure 401 None)), \<lparr>calls = [?rq], sleeps = []\<rparr>)"
    by blast
  from errors_surfaced [where prompt = "JS_string ''x''" and s = "''x''" and this = ?m
      and tr = "always_failing 401" and options = no_options and w = quiet, OF refl l] b
  have "analyzePrompt ?m (always_failing 401) (JS_string ''x'') no_options quiet
    = (Inl \<lparr>cls = ServiceError, message = ''Failed to analyze prompt'',
            code = Some ''SERVICE_ERROR'', status = Some 500,
            response = (case err_response (http_failure 401 None) of None \<Rightarrow> Undefined
                                   | Some r \<Rightarrow> Response r)\<rparr>, \<lparr>calls = [?rq], sleeps = []\<rparr>)"
    by blast
  then have 2: "analyzePrompt ?m (always_failing 401) (JS_string ''x'') no_options quiet
    = (Inl \<lparr>cls = ServiceError, message = ''Failed to analyze prompt'',
            code = Some ''SERVICE_ERROR'', status = Some 500,
            response = Response \<lparr>resp_status = 401,
              resp_data = Some \<lparr>body_error = None, body_message = None, body_rest = []\<rparr>\<rparr>\<rparr>,
       \<lparr>calls = [?rq], sleeps = []\<rparr>)"
    by (simp add: http_failure_def)
  from 1 2 show ?thesis by simp
qed

text \<open>
  C10. On a prompt that passes the check: with the override \<open>timeout: 0\<close> every request
  of the call is issued with the client's configured timeout, not 0; with the override
  \<open>retries: 0\<close> the call makes exactly one request and waits for nothing, so a request
  that fails with a retryable error is attempted once and that error is the result.
\<close>

theorem override_falsiness:
  assumes "prompt = JS_string s" and "1 \<le> length s" and "length s \<le> 10000"
  shows "(opt_timeout options = Some 0 \<longrightarrow>
            (\<exists>k. calls (snd (analyzePrompt this tr prompt options w)) =
               calls w @ replicate (Suc k)
                 \<lparr>req_method = ''POST'',
                  req_url = baseURL (client_axios this) @ ''/v1/prompt-analysis/analyze'',
                  req_authorization = authorization (client_axios this),
                  req_prompt = Some s,
                  req_timeout = timeout (config this)\<rparr>))
       \<and> (opt_retries options = Some 0 \<longrightarrow>
            (\<exists>rq. snd (analyzePrompt this tr prompt options w) = w\<lparr>calls := calls w @ [rq]\<rparr>) \<and>
            (\<forall>err. response_rejected (client_axios this) = Some interceptor_rejected \<and>
                   tr (length (calls w))
                     \<lparr>req_method = ''POST'',
                      req_url = baseURL (client_axios this) @ ''/v1/prompt-analysis/analyze'',
                      req_authorization = authorization (client_axios this),
                      req_prompt = Some s,
                      req_timeout = or_num (opt_timeout options) (timeout (config this))\<rparr>
                     = Inl err \<and>
                   shouldRetry (Typed (handleError err))
                 \<longrightarrow> fst (analyzePrompt this tr prompt options w) = Inl (handleError err)))"
proof (intro conjI impI allI)
  assume t0: "opt_timeout options = Some 0"
  from analyze_calls [OF assms, of this tr options w]
  obtain k where "calls (snd (analyzePrompt this tr prompt options w)) =
           calls w @ replicate (Suc k)
             \<lparr>req_method = ''POST'',
              req_url = baseURL (client_axios this) @ ''/v1/prompt-analysis/analyze'',
              req_authorization = authorization (client_axios this),
              req_prompt = Some s,
              req_timeout = or_num (opt_timeout options) (timeout (config this))\<rparr>"
    by blast
  with t0 show "\<exists>k. calls (snd (analyzePrompt this tr prompt options w)) =
               calls w @ replicate (Suc k)
                 \<lparr>req_method = ''POST'',
                  req_url = baseURL (client_axios this) @ ''/v1/prompt-analysis/analyze'',
                  req_authorization = authorization (client_axios this),
                  req_prompt = Some s,
                  req_timeout = timeout (config this)\<rparr>"
    by (auto simp: or_num_def)
next
  assume r0: "opt_retries options = Some 0"
  let ?rq = "\<lparr>req_method = ''POST'',
                      req_url = baseURL (client_axios this) @ ''/v1/prompt-analysis/analyze'',
                      req_authorization = authorization (client_axios this),
                      req_prompt = Some s,
                      req_timeout = or_num (opt_timeout options) (timeout (config this))\<rparr>"
  have once: "retryRequest_from this (axios_request tr (client_axios this) ?rq) 0 w
      = axios_request tr (client_axios this) ?rq w"
    by (simp add: retry_no_budget)
  have w1: "snd (axios_request tr (client_axios this) ?rq w) = w\<lparr>calls := calls w @ [?rq]\<rparr>"
    by (simp add: axios_request_def Let_def split: sum.splits option.splits)
  from valid_prompt [OF assms, of this tr options w] r0 once
  have ap: "analyzePrompt this tr prompt options w =
     (case axios_request tr (client_axios this) ?rq w of
        (Inr resp, w') \<Rightarrow> (Inr (resp_data resp), w')
      | (Inl (Typed e), w') \<Rightarrow> (Inl e, w')
      | (Inl (Raw r), w') \<Rightarrow>
          (Inl (new_ServiceError (Some ''Failed to analyze prompt'')
                  (attach_response (err_response r))), w'))"
    by simp
  have "snd (analyzePrompt this tr prompt options w) = snd (axios_request tr (client_axios this) ?rq w)"
    unfolding ap by (simp split: prod.splits sum.splits thrown.splits)
  then have "snd (analyzePrompt this tr prompt options w) = w\<lparr>calls := calls w @ [?rq]\<rparr>"
    by (simp only: w1)
  then show "\<exists>rq. snd (analyzePrompt this tr prompt options w) = w\<lparr>calls := calls w @ [rq]\<rparr>"
    by (rule exI)
  fix err
  assume h: "response_rejected (client_axios this) = Some interceptor_rejected \<and>
     tr (length (calls w)) ?rq = Inl err \<and> shouldRetry (Typed (handleError err))"
  then have "axios_request tr (client_axios this) ?rq w
      = (Inl (Typed (handleError err)), w\<lparr>calls := calls w @ [?rq]\<rparr>)"
    by (simp add: axios_request_rejected interceptor_rejected_def)
  with ap show "fst (analyzePrompt this tr prompt options w) = Inl (handleError err)"
    by simp
qed

text \<open>
  C10, instance: both overrides set to 0 on a client with timeout 30000 and budget 3,
  against a remote that always answers 429.
\<close>

theorem override_falsiness_witness:
  "(\<exists>k. calls (snd (analyzePrompt (new_NexusVoidClient only_key) (always_failing 429)
             (JS_string ''x'') \<lparr>opt_timeout = Some 0, opt_retries = Some 0\<rparr> quiet)) =
         replicate (Suc k)
           \<lparr>req_method = ''POST'',
            req_url = ''https://api.nexusvoid.com/v1/prompt-analysis/analyze'',
            req_authorization = ''Bearer k'', req_prompt = Some ''x'',
            req_timeout = 30000\<rparr>)
   \<and> (\<exists>rq. snd (analyzePrompt (new_NexusVoidClient only_key) (always_failing 429)
             (JS_string ''x'') \<lparr>opt_timeout = Some 0, opt_retries = Some 0\<rparr> quiet)
           = \<lparr>calls = [rq], sleeps = []\<rparr>)
   \<and> fst (analyzePrompt (new_NexusVoidClient only_key) (always_failing 429)
             (JS_string ''x'') \<lparr>opt_timeout = Some 0, opt_retries = Some 0\<rparr> quiet)
       = Inl (handleError (http_failure 429 None))"
proof -
  let ?c = "new_NexusVoidClient only_key"
  let ?o = "\<lparr>opt_timeout = Some 0, opt_retries = Some 0\<rparr>"
  let ?rq = "\<lparr>req_method = ''POST'',
                      req_url = baseURL (client_axios ?c) @ ''/v1/prompt-analysis/analyze'',
                      req_authorization = authorization (client_axios ?c),
                      req_prompt = Some ''x'',
                      req_timeout = or_num (opt_timeout ?o) (timeout (config ?c))\<rparr>"
  have l: "1 \<le> length ''x''" "length ''x'' \<le> 10000" by simp_all
  have o: "opt_timeout ?o = Some 0" "opt_retries ?o = Some 0" by simp_all
  have h: "response_rejected (client_axios ?c) = Some interceptor_rejected \<and>
     always_failing 429 (length (calls quiet)) ?rq = Inl (http_failure 429 None) \<and>
     shouldRetry (Typed (handleError (http_failure 429 None)))"
    by (simp add: always_failing_def shouldRetry_Typed handleError_http http_failure_def)
  note t = override_falsiness [where prompt = "JS_string ''x''" and s = "''x''" and this = ?c
      and tr = "always_failing 429" and options = ?o and w = quiet, OF refl l]
  from t o have 1: "\<exists>k. calls (snd (analyzePrompt ?c (always_failing 429) (JS_string ''x'') ?o quiet)) =
               calls quiet @ replicate (Suc k)
                 \<lparr>req_method = ''POST'',
                  req_url = baseURL (client_axios ?c) @ ''/v1/prompt-analysis/analyze'',
                  req_authorization = authorization (client_axios ?c),
                  req_prompt = Some ''x'',
                  req_timeout = timeout (config ?c)\<rparr>"
    by blast
  from t o have 2: "\<exists>rq. snd (analyzePrompt ?c (always_failing 429) (JS_string ''x'') ?o quiet)
      = quiet\<lparr>calls := calls quiet @ [rq]\<rparr>"
    by blast
  from t o h have 3: "fst (analyzePrompt ?c (always_failing 429) (JS_string ''x'') ?o quiet)
       = Inl (handleError (http_failure 429 None))"
    by blast
  from 1 have p1: "\<exists>k. calls (snd (analyzePrompt ?c (always_failing 429) (JS_string ''x'') ?o quiet)) =
         replicate (Suc k)
           \<lparr>req_method = ''POST'',
            req_url = ''https://api.nexusvoid.com/v1/prompt-analysis/analyze'',
            req_authorization = ''Bearer k'', req_prompt = Some ''x'',
            req_timeout = 30000\<rparr>"
    by (simp add: new_NexusVoidClient_def only_key_def quiet_def Let_def)
  from 2 have p2: "\<exists>rq. snd (analyzePrompt ?c (always_failing 429) (JS_string ''x'') ?o quiet)
           = \<lparr>calls = [rq], sleeps = []\<rparr>"
    by (simp add: quiet_def)
  from p1 p2 3 show ?thesis by blast
qed

text \<open>Assignments through one reference leave the objects at every other reference alone.\<close>

lemma mutate_all_other:
  "r \<noteq> a \<Longrightarrow> objects (mutate_all r ms s) a = objects s a"
  by (induction ms arbitrary: s) (simp_all add: mutate_def)

lemma mutate_all_next: "next_ref (mutate_all r ms s) = next_ref s"
  by (induction ms arbitrary: s) (simp_all add: mutate_def)

lemma construct_allocated:
  "construct c s = (this, s') \<Longrightarrow> ref_config this < next_ref s'"
  by (auto simp: construct_def)

text \<open>
  C8. \<open>getConfig\<close> returns a reference to a new object holding the values of the
  client's configuration, different from the reference the client holds. Whatever
  sequence of assignments is made through the returned reference, the client's
  configuration object is as it was, the client as its methods see it is the same, and
  so analyze and healthCheck behave as before.
\<close>

theorem getConfig_is_a_copy:
  assumes "ref_config this < next_ref s"
    and "getConfig this s = (r, s')"
  shows "objects s' r = objects s (ref_config this)
       \<and> r \<noteq> ref_config this
       \<and> objects (mutate_all r ms s') (ref_config this) = objects s (ref_config this)
       \<and> deref (mutate_all r ms s') this = deref s this
       \<and> analyzePrompt (deref (mutate_all r ms s') this) tr prompt options w
           = analyzePrompt (deref s this) tr prompt options w
       \<and> healthCheck (deref (mutate_all r ms s') this) tr w = healthCheck (deref s this) tr w"
proof -
  from assms(2) have r: "r = next_ref s"
    and s': "s' = s\<lparr>objects := (objects s)(next_ref s := objects s (ref_config this)),
                    next_ref := Suc (next_ref s)\<rparr>"
    by (auto simp: getConfig_def)
  from r assms(1) have ne: "r \<noteq> ref_config this" by simp
  have copy: "objects s' r = objects s (ref_config this)"
    using r s' by simp
  have kept: "objects (mutate_all r ms s') (ref_config this) = objects s (ref_config this)"
    using mutate_all_other [OF ne, of ms s'] ne r s' by simp
  then have d: "deref (mutate_all r ms s') this = deref s this"
    by (simp add: deref_def)
  from copy ne kept d show ?thesis by simp
qed

text \<open>
  C8, instance: a client built from a key alone; the copy is given a budget of 0, a
  timeout of 1 and another key, and the client still has budget 3, timeout 30000 and
  its own key.
\<close>

theorem getConfig_is_a_copy_witness:
  "(let (this, s) = construct only_key empty_store;
        (r, s') = getConfig this s;
        s'' = mutate_all r [Assign_retries 0, Assign_timeout 1, Assign_apiKey ''stolen''] s'
    in retries (objects s'' r) = 0 \<and> apiKey (objects s'' r) = ''stolen''
       \<and> objects s'' (ref_config this) =
            \<lparr>apiKey = ''k'', baseUrl = ''https://api.nexusvoid.com'', timeout = 30000, retries = 3\<rparr>
       \<and> deref s'' this = deref s this
       \<and> analyzePrompt (deref s'' this) (always_failing 429) (JS_string ''x'') no_options quiet
           = analyzePrompt (deref s this) (always_failing 429) (JS_string ''x'') no_options quiet
       \<and> healthCheck (deref s'' this) (always_failing 429) quiet
           = healthCheck (deref s this) (always_failing 429) quiet)"
proof -
  obtain this s where c: "construct only_key empty_store = (this, s)"
    by (cases "construct only_key empty_store")
  obtain r s' where g: "getConfig this s = (r, s')"
    by (cases "getConfig this s")
  from c have this_def: "this = \<lparr>ref_axios = client_axios (new_NexusVoidClient only_key), ref_config = 0\<rparr>"
    and s_def: "s = empty_store\<lparr>objects := (objects empty_store)(0 := config (new_NexusVoidClient only_key)),
        next_ref := Suc 0\<rparr>"
    by (auto simp: construct_def empty_store_def)
  have a: "ref_config this < next_ref s"
    using this_def s_def by simp
  from g have r0: "r = 1" and s'_def: "s' = s\<lparr>objects := (objects s)(1 := objects s 0), next_ref := 2\<rparr>"
    using this_def s_def by (auto simp: getConfig_def)
  let ?ms = "[Assign_retries 0, Assign_timeout 1, Assign_apiKey ''stolen'']"
  note t = getConfig_is_a_copy [OF a g, of ?ms "always_failing 429" "JS_string ''x''" no_options quiet]
  have m: "retries (objects (mutate_all r ?ms s') r) = 0 \<and> apiKey (objects (mutate_all r ?ms s') r) = ''stolen''"
    by (simp add: mutate_def)
  have v: "objects s (ref_config this) =
            \<lparr>apiKey = ''k'', baseUrl = ''https://api.nexusvoid.com'', timeout = 30000, retries = 3\<rparr>"
    using this_def s_def by (simp add: new_NexusVoidClient_def only_key_def Let_def)
  from t m v show ?thesis
    by (simp add: c g Let_def)
qed

end
